theory Spec2Isabelle
  imports Complex_Main "HOL-Library.Sublist"
begin

section \<open>Python strings and bytes\<close>

text \<open>
  Text and byte strings of the Python source are lists of \<^typ>\<open>char\<close>. Text is taken to
  be ASCII: \<open>str.lower\<close>, \<open>str.strip\<close> and \<open>float\<close> are modelled on the ASCII
  range, where they agree with Python's Unicode-aware versions.
\<close>

type_synonym bytes = "char list"

definition py_lower_char :: "char \<Rightarrow> char" where
  "py_lower_char c =
     (case map_of (zip ''ABCDEFGHIJKLMNOPQRSTUVWXYZ'' ''abcdefghijklmnopqrstuvwxyz'') c of
        Some d \<Rightarrow> d
      | None \<Rightarrow> c)"

definition py_lower :: "string \<Rightarrow> string" where
  "py_lower s = map py_lower_char s"

text \<open>The ASCII characters for which \<open>str.isspace\<close> holds: TAB, LF, VT, FF, CR,
  the separators 0x1C to 0x1F, and the space.\<close>

definition py_isspace :: "char \<Rightarrow> bool" where
  "py_isspace c \<longleftrightarrow>
     c \<in> set [CHR 0x09, CHR 0x0A, CHR 0x0B, CHR 0x0C, CHR 0x0D,
              CHR 0x1C, CHR 0x1D, CHR 0x1E, CHR 0x1F, CHR 0x20]"

definition py_strip :: "string \<Rightarrow> string" where
  "py_strip s = rev (dropWhile py_isspace (rev (dropWhile py_isspace s)))"

definition startswith :: "'a list \<Rightarrow> 'a list \<Rightarrow> bool" where
  "startswith s p \<longleftrightarrow> take (length p) s = p"

definition endswith :: "'a list \<Rightarrow> 'a list \<Rightarrow> bool" where
  "endswith s p \<longleftrightarrow> startswith (rev s) (rev p)"

text \<open>\<open>s.split(sep)[-1]\<close> for a one-character separator: what follows the last
  occurrence of \<open>sep\<close>, or all of \<open>s\<close> when there is none.\<close>

definition split_last :: "char \<Rightarrow> string \<Rightarrow> string" where
  "split_last sep s = rev (takeWhile (\<lambda>c. c \<noteq> sep) (rev s))"

fun py_join :: "string \<Rightarrow> string list \<Rightarrow> string" where
  "py_join sep [] = []"
| "py_join sep [x] = x"
| "py_join sep (x # y # ys) = x @ sep @ py_join sep (y # ys)"

definition digit_char :: "nat \<Rightarrow> char" where
  "digit_char d = ''0123456789'' ! (d mod 10)"

fun py_str_nat :: "nat \<Rightarrow> string" where
  "py_str_nat n = (if n < 10 then [digit_char n] else py_str_nat (n div 10) @ [digit_char (n mod 10)])"

declare py_str_nat.simps [simp del]

section \<open>File validators (\<open>drawings/validators.py\<close>)\<close>

text \<open>
  An uploaded file as the validators read it: its \<open>size\<close> attribute, its \<open>name\<close> and its
  content (\<open>file.read(2048)\<close> after \<open>file.seek(0)\<close> is the first 2048 bytes).
\<close>

record uploaded_file =
  file_size :: nat
  file_name :: string
  file_content :: bytes

text \<open>
  \<open>ValidationError\<close> carries a formatted message; the model keeps which message it is and
  the values it interpolates (the sizes are in bytes; the source prints them in MB with one
  decimal).
\<close>

datatype validation_error =
    SizeExceeded nat nat
  | BadPdfExtension
  | BadPdfContent
  | BadImageExtension string
  | BadImageContent
  | BadMimeType string

text \<open>
  The optional \<open>python-magic\<close> library: \<open>None\<close> when the import failed
  (\<open>HAS_MAGIC = False\<close>), otherwise \<open>magic.from_buffer(header, mime=True)\<close>, which returns a
  MIME type or raises (\<open>Inl\<close>).
\<close>

type_synonym magic_lib = "(bytes \<Rightarrow> unit + string) option"

definition pdf_allowed_mime_types :: "string list" where
  "pdf_allowed_mime_types = [''application/pdf'']"

definition pdf_default_max_size :: nat where
  "pdf_default_max_size = 50 * 1024 * 1024"

text \<open>\<open>__init__\<close>: the instance's \<open>max_size\<close>.\<close>

definition PDFFileValidator :: "nat option \<Rightarrow> nat" where
  "PDFFileValidator max_size = (case max_size of Some m \<Rightarrow> m | None \<Rightarrow> pdf_default_max_size)"

text \<open>
  \<open>__call__\<close>. The \<open>ValidationError\<close> raised inside the \<open>try\<close> of the python-magic check is
  an \<open>Exception\<close>, so the \<open>except Exception: pass\<close> around it catches it as well.
\<close>

definition pdf_call :: "magic_lib \<Rightarrow> nat \<Rightarrow> uploaded_file \<Rightarrow> validation_error + unit" where
  "pdf_call magic max_size file =
     (if file_size file > max_size then Inl (SizeExceeded (file_size file) max_size)
      else if \<not> endswith (py_lower (file_name file)) ''.pdf'' then Inl BadPdfExtension
      else let file_header = take 2048 (file_content file) in
        if \<not> startswith file_header ''%PDF-'' then Inl BadPdfContent
        else (case magic of
                None \<Rightarrow> Inr ()
              | Some from_buffer \<Rightarrow>
                  (case from_buffer file_header of
                     Inl _ \<Rightarrow> Inr ()
                   | Inr mime_type \<Rightarrow>
                       (case (if mime_type \<notin> set pdf_allowed_mime_types
                              then Inl (BadMimeType mime_type) else Inr ()) of
                          Inl _ \<Rightarrow> Inr ()
                        | Inr _ \<Rightarrow> Inr ()))))"

definition image_allowed_extensions :: "string list" where
  "image_allowed_extensions = [''.png'', ''.jpg'', ''.jpeg'', ''.gif'', ''.webp'']"

definition image_allowed_mime_types :: "string list" where
  "image_allowed_mime_types = [''image/png'', ''image/jpeg'', ''image/gif'', ''image/webp'']"

definition image_default_max_size :: nat where
  "image_default_max_size = 5 * 1024 * 1024"

definition ImageFileValidator :: "nat option \<Rightarrow> nat" where
  "ImageFileValidator max_size = (case max_size of Some m \<Rightarrow> m | None \<Rightarrow> image_default_max_size)"

definition image_ext :: "string \<Rightarrow> string" where
  "image_ext name = (if CHR ''.'' \<in> set name then ''.'' @ split_last CHR ''.'' (py_lower name) else [])"

text \<open>The fallback header checks at the end of \<open>ImageFileValidator.__call__\<close>.\<close>

definition image_header_check :: "bytes \<Rightarrow> validation_error + unit" where
  "image_header_check file_header =
     (let is_png = startswith file_header [CHR 0x89, CHR ''P'', CHR ''N'', CHR ''G''];
          is_jpeg = startswith file_header [CHR 0xFF, CHR 0xD8, CHR 0xFF];
          is_gif = startswith file_header ''GIF87a'' \<or> startswith file_header ''GIF89a''
      in if \<not> (is_png \<or> is_jpeg \<or> is_gif) then Inl BadImageContent else Inr ())"

definition image_call :: "magic_lib \<Rightarrow> nat \<Rightarrow> uploaded_file \<Rightarrow> validation_error + unit" where
  "image_call magic max_size file =
     (if file_size file > max_size then Inl (SizeExceeded (file_size file) max_size)
      else let ext = image_ext (file_name file) in
        if ext \<notin> set image_allowed_extensions then Inl (BadImageExtension ext)
        else let file_header = take 2048 (file_content file) in
          (case magic of
             None \<Rightarrow> image_header_check file_header
           | Some from_buffer \<Rightarrow>
               (case from_buffer file_header of
                  Inl _ \<Rightarrow> image_header_check file_header
                | Inr mime_type \<Rightarrow>
                    if mime_type \<notin> set image_allowed_mime_types
                    then image_header_check file_header
                    else Inr ())))"

text \<open>The convenience instances \<open>validate_pdf = PDFFileValidator()\<close> and
  \<open>validate_image = ImageFileValidator()\<close>.\<close>

definition validate_pdf :: "magic_lib \<Rightarrow> uploaded_file \<Rightarrow> validation_error + unit" where
  "validate_pdf magic = pdf_call magic (PDFFileValidator None)"

definition validate_image :: "magic_lib \<Rightarrow> uploaded_file \<Rightarrow> validation_error + unit" where
  "validate_image magic = image_call magic (ImageFileValidator None)"

section \<open>Python values used by the importer\<close>

subsection \<open>Dictionaries\<close>

text \<open>
  A \<open>dict\<close> is an association list with pairwise distinct keys, in insertion order.
  \<open>dict_set\<close> is \<open>d[k] = v\<close>: it overwrites in place or appends.
\<close>

type_synonym ('k, 'v) dict = "('k \<times> 'v) list"

fun dict_set :: "('k, 'v) dict \<Rightarrow> 'k \<Rightarrow> 'v \<Rightarrow> ('k, 'v) dict" where
  "dict_set [] k v = [(k, v)]"
| "dict_set ((k', v') # d) k v = (if k' = k then (k, v) # d else (k', v') # dict_set d k v)"

definition dict_get :: "('k, 'v) dict \<Rightarrow> 'k \<Rightarrow> 'v \<Rightarrow> 'v" where
  "dict_get d k dflt = (case map_of d k of Some v \<Rightarrow> v | None \<Rightarrow> dflt)"

definition dict_contains :: "('k, 'v) dict \<Rightarrow> 'k \<Rightarrow> bool" where
  "dict_contains d k \<longleftrightarrow> map_of d k \<noteq> None"

definition dict_values :: "('k, 'v) dict \<Rightarrow> 'v list" where
  "dict_values d = map snd d"

text \<open>\<open>{**d, **e}\<close>, and \<open>dict(pairs)\<close> as the merge into the empty dictionary.\<close>

definition dict_merge :: "('k, 'v) dict \<Rightarrow> ('k \<times> 'v) list \<Rightarrow> ('k, 'v) dict" where
  "dict_merge d e = foldl (\<lambda>acc (k, v). dict_set acc k v) d e"

subsection \<open>Floats\<close>

text \<open>
  A Python \<open>float\<close>: a finite value, an infinity or NaN. A finite value is kept as the
  exact rational that the decimal text denotes; rounding to the nearest binary64 number is
  not modelled, only the overflow to infinity.
\<close>

datatype pyfloat = Finite rat | PosInf | NegInf | NaN

definition is_digit :: "char \<Rightarrow> bool" where
  "is_digit c \<longleftrightarrow> c \<in> set ''0123456789''"

definition digit_val :: "char \<Rightarrow> nat" where
  "digit_val c = length (takeWhile (\<lambda>d. d \<noteq> c) ''0123456789'')"

definition digits_val :: "string \<Rightarrow> int" where
  "digits_val ds = foldl (\<lambda>n c. 10 * n + int (digit_val c)) 0 ds"

text \<open>
  Underscores in a numeric literal: allowed only between two digits. \<open>prev\<close> is the
  character before, NUL at the start.
\<close>

fun remove_underscores :: "char \<Rightarrow> string \<Rightarrow> string option" where
  "remove_underscores prev [] = (if prev = CHR ''_'' then None else Some [])"
| "remove_underscores prev (c # cs) =
     (if c = CHR ''_'' then (if is_digit prev then remove_underscores c cs else None)
      else if prev = CHR ''_'' \<and> \<not> is_digit c then None
      else map_option ((#) c) (remove_underscores c cs))"

definition split_sign :: "string \<Rightarrow> bool \<times> string" where
  "split_sign s =
     (case s of
        [] \<Rightarrow> (False, [])
      | c # r \<Rightarrow> if c = CHR ''-'' then (True, r) else if c = CHR ''+'' then (False, r) else (False, s))"

text \<open>The exponent part: empty, or \<open>e\<close>/\<open>E\<close>, an optional sign and at least one digit.\<close>

definition parse_exponent :: "string \<Rightarrow> int option" where
  "parse_exponent s =
     (case s of
        [] \<Rightarrow> Some 0
      | c # r \<Rightarrow>
          if c = CHR ''e'' \<or> c = CHR ''E'' then
            (case split_sign r of (neg, ds) \<Rightarrow>
               if ds \<noteq> [] \<and> list_all is_digit ds
               then Some (if neg then - digits_val ds else digits_val ds)
               else None)
          else None)"

text \<open>
  The value \<open>m * 10 ^ e\<close> with its sign. From \<open>2 ^ 1024 - 2 ^ 970\<close> on, the nearest
  binary64 number is an infinity; the comparison is made on integers.
\<close>

definition overflows :: "int \<Rightarrow> int \<Rightarrow> bool" where
  "overflows m e \<longleftrightarrow>
     (if 0 \<le> e then m * 10 ^ nat e \<ge> 2 ^ 1024 - 2 ^ 970
      else m \<ge> (2 ^ 1024 - 2 ^ 970) * 10 ^ nat (- e))"

definition float_of_decimal :: "bool \<Rightarrow> int \<Rightarrow> int \<Rightarrow> pyfloat" where
  "float_of_decimal neg m e =
     (if overflows m e then (if neg then NegInf else PosInf)
      else let v = (if 0 \<le> e then of_int (m * 10 ^ nat e)
                    else of_int m / of_int (10 ^ nat (- e))) :: rat
           in Finite (if neg then - v else v))"

definition parse_float :: "string \<Rightarrow> pyfloat option" where
  "parse_float t =
     (case split_sign t of (neg, u) \<Rightarrow>
        if py_lower u = ''inf'' \<or> py_lower u = ''infinity'' then Some (if neg then NegInf else PosInf)
        else if py_lower u = ''nan'' then Some NaN
        else
          let ip = takeWhile is_digit u;
              r1 = dropWhile is_digit u;
              fp = (case r1 of [] \<Rightarrow> [] | c # r \<Rightarrow> if c = CHR ''.'' then takeWhile is_digit r else []);
              r2 = (case r1 of [] \<Rightarrow> [] | c # r \<Rightarrow> if c = CHR ''.'' then dropWhile is_digit r else r1)
          in if ip = [] \<and> fp = [] then None
             else (case parse_exponent r2 of
                     None \<Rightarrow> None
                   | Some e \<Rightarrow> Some (float_of_decimal neg (digits_val (ip @ fp)) (e - int (length fp)))))"

text \<open>\<open>float(s)\<close> for a string: \<open>None\<close> is the \<open>ValueError\<close>.\<close>

definition py_float :: "string \<Rightarrow> pyfloat option" where
  "py_float s =
     (case remove_underscores (CHR 0x00) (py_strip s) of
        None \<Rightarrow> None
      | Some t \<Rightarrow> parse_float t)"

subsection \<open>Exceptions\<close>

datatype py_exception =
    ValueError string
  | TypeError string
  | AttributeError string
  | MultipleObjectsReturned string
  | CsvError string

text \<open>\<open>str(e)\<close>.\<close>

fun str_exc :: "py_exception \<Rightarrow> string" where
  "str_exc (ValueError m) = m"
| "str_exc (TypeError m) = m"
| "str_exc (AttributeError m) = m"
| "str_exc (MultipleObjectsReturned m) = m"
| "str_exc (CsvError m) = m"

section \<open>The stored data (\<open>drawings/models.py\<close>)\<close>

subsection \<open>Rows read from a CSV file\<close>

text \<open>
  A value in a row dictionary of \<open>csv.DictReader\<close>: the text of a field, \<open>None\<close> (the
  \<open>restval\<close> of a field that a short row lacks) or the list of surplus fields of a long
  row, which is stored under the key \<open>None\<close> (the \<open>restkey\<close>).
\<close>

datatype cell = Text string | PyNone | Rest "string list"

type_synonym csv_row = "(string option, cell) dict"

subsection \<open>Model classes\<close>

text \<open>
  Modelled from the spec: \<open>drawings/models.py\<close> is not among the sources. The fields of
  \<open>AssetType\<close>, \<open>ImportBatch\<close> and \<open>Asset\<close> are the ones the data model of the
  specification and the importer name; the defaults of a new \<open>AssetType\<close> are those of
  \<open>AssetTypeModelTests.test_defaults\<close>. A foreign key holds the primary key of its target.
\<close>

record AssetType =
  at_pk :: nat
  at_name :: string
  at_icon_shape :: string
  at_color :: string
  at_size :: nat

record ImportBatch =
  batch_pk :: nat
  batch_project :: nat
  batch_filename :: string
  batch_asset_count :: nat

record Asset =
  asset_project :: nat
  asset_id :: string
  asset_type :: nat
  asset_name :: string
  original_x :: pyfloat
  original_y :: pyfloat
  adjusted_x :: "pyfloat option"
  adjusted_y :: "pyfloat option"
  is_adjusted :: bool
  asset_metadata :: csv_row
  asset_import_batch :: "nat option"

text \<open>The tables of the database, each in the order of its rows.\<close>

record database =
  db_asset_types :: "AssetType list"
  db_import_batches :: "ImportBatch list"
  db_assets :: "Asset list"

text \<open>The primary key of a new row: larger than every key in the table.\<close>

definition next_pk :: "nat list \<Rightarrow> nat" where
  "next_pk pks = Suc (foldr max pks 0)"

text \<open>\<open>AssetType.objects.create(name=...)\<close>.\<close>

definition AssetType_create :: "database \<Rightarrow> string \<Rightarrow> database \<times> AssetType" where
  "AssetType_create db nm =
     (let atype = \<lparr>at_pk = next_pk (map at_pk (db_asset_types db)), at_name = nm,
                at_icon_shape = ''circle'', at_color = ''#FF0000'', at_size = 20\<rparr>
      in (db\<lparr>db_asset_types := db_asset_types db @ [atype]\<rparr>, atype))"

text \<open>\<open>ImportBatch.objects.create(project=..., filename=..., asset_count=...)\<close>.\<close>

definition ImportBatch_create :: "database \<Rightarrow> nat \<Rightarrow> string \<Rightarrow> nat \<Rightarrow> database \<times> ImportBatch" where
  "ImportBatch_create db proj fname n =
     (let b = \<lparr>batch_pk = next_pk (map batch_pk (db_import_batches db)), batch_project = proj,
               batch_filename = fname, batch_asset_count = n\<rparr>
      in (db\<lparr>db_import_batches := db_import_batches db @ [b]\<rparr>, b))"

text \<open>\<open>batch.asset_count = n; batch.save(update_fields=['asset_count'])\<close>: an update of the
  row with the batch's primary key.\<close>

definition ImportBatch_save_asset_count :: "database \<Rightarrow> nat \<Rightarrow> nat \<Rightarrow> database" where
  "ImportBatch_save_asset_count db pk n =
     db\<lparr>db_import_batches :=
          map (\<lambda>b. if batch_pk b = pk then b\<lparr>batch_asset_count := n\<rparr> else b) (db_import_batches db)\<rparr>"

definition quote :: "string \<Rightarrow> string" where
  "quote s = [CHR 0x27] @ s @ [CHR 0x27]"

text \<open>
  \<open>Asset.objects.update_or_create(project=..., asset_id=..., defaults={...})\<close>: the rows
  with this project and asset id are looked up; none: a row is created from the lookup and the
  defaults; one: the defaults are written to it; several: \<open>MultipleObjectsReturned\<close>.
  The result is the new database and the \<open>created\<close> flag.
\<close>

definition Asset_update_or_create ::
  "database \<Rightarrow> nat \<Rightarrow> string \<Rightarrow> nat \<Rightarrow> string \<Rightarrow> pyfloat \<Rightarrow> pyfloat \<Rightarrow> csv_row \<Rightarrow> nat
     \<Rightarrow> py_exception + (database \<times> bool)" where
  "Asset_update_or_create db proj aid atype nm x y meta batch =
     (case filter (\<lambda>a. asset_project a = proj \<and> asset_id a = aid) (db_assets db) of
        [] \<Rightarrow>
          Inr (db\<lparr>db_assets := db_assets db @
                 [\<lparr>asset_project = proj, asset_id = aid, asset_type = atype, asset_name = nm,
                   original_x = x, original_y = y, adjusted_x = None, adjusted_y = None,
                   is_adjusted = False, asset_metadata = meta, asset_import_batch = Some batch\<rparr>]\<rparr>,
               True)
      | [_] \<Rightarrow>
          Inr (db\<lparr>db_assets :=
                 map (\<lambda>a. if asset_project a = proj \<and> asset_id a = aid
                          then a\<lparr>asset_type := atype, asset_name := nm, original_x := x,
                                 original_y := y, asset_metadata := meta,
                                 asset_import_batch := Some batch\<rparr>
                          else a) (db_assets db)\<rparr>,
               False)
      | _ # _ # others \<Rightarrow>
          Inl (MultipleObjectsReturned
                 (''get() returned more than one Asset -- it returned '' @
                  (if length others + 2 < 21 then py_str_nat (length others + 2) else ''more than 20'') @
                  ''!'')))"

section \<open>The CSV importer (\<open>drawings/services/csv_importer.py\<close>)\<close>

definition DEFAULT_MAPPING :: "(string, string) dict" where
  "DEFAULT_MAPPING =
     [(''asset_id'', ''asset_id''), (''asset_type'', ''asset_type''), (''x'', ''x''), (''y'', ''y''),
      (''name'', ''name'')]"

definition required_roles :: "string list" where
  "required_roles = [''asset_id'', ''asset_type'', ''x'', ''y'']"

text \<open>
  The uploaded file as \<open>csv.reader\<close> reads its decoded content: what each successive
  \<open>next(reader)\<close> does until the input is exhausted, which is to return a record or to raise
  \<open>csv.Error\<close> (a stray carriage return in an unquoted field, a field above the size limit),
  and the file object's \<open>name\<close> attribute, if it has one.
\<close>

datatype csv_read = ReadRow "string list" | ReadError string

record csv_file =
  csv_reads :: "csv_read list"
  csv_name :: "string option"

text \<open>
  \<open>reader.fieldnames\<close>: the first record, \<open>None\<close> for a file with no record at all; the
  \<open>csv.Error\<close> of the first read is raised to the caller.
\<close>

definition reader_fieldnames :: "csv_file \<Rightarrow> py_exception + string list option" where
  "reader_fieldnames f =
     (case csv_reads f of
        [] \<Rightarrow> Inr None
      | ReadRow row # _ \<Rightarrow> Inr (Some row)
      | ReadError msg # _ \<Rightarrow> Inl (CsvError msg))"

text \<open>One row dictionary of \<open>DictReader.__next__\<close>.\<close>

definition dictreader_row :: "string list \<Rightarrow> string list \<Rightarrow> csv_row" where
  "dictreader_row fieldnames row =
     (let d = dict_merge [] (zip (map Some fieldnames) (map Text row));
          lf = length fieldnames;
          lr = length row
      in if lf < lr then dict_set d None (Rest (drop lf row))
         else if lf > lr then foldl (\<lambda>acc key. dict_set acc (Some key) PyNone) d (drop lr fieldnames)
         else d)"

text \<open>
  The loop over \<open>required_roles\<close> that collects \<open>missing\<close>. \<open>col not in fieldnames\<close>
  raises \<open>TypeError\<close> when \<open>fieldnames\<close> is \<open>None\<close>.
\<close>

definition missing_entry :: "string \<Rightarrow> string \<Rightarrow> string" where
  "missing_entry role col = role @ '' (mapped to '' @ quote col @ '')''"

fun find_missing ::
  "(string, string) dict \<Rightarrow> string list option \<Rightarrow> string list \<Rightarrow> string list
     \<Rightarrow> py_exception + string list" where
  "find_missing mapping fieldnames [] missing = Inr missing"
| "find_missing mapping fieldnames (role # roles) missing =
     (let col = dict_get mapping role [] in
      if col = [] then find_missing mapping fieldnames roles (missing @ [missing_entry role col])
      else (case fieldnames of
              None \<Rightarrow> Inl (TypeError (''argument of type '' @ quote ''NoneType'' @ '' is not iterable''))
            | Some names \<Rightarrow>
                if col \<notin> set names
                then find_missing mapping fieldnames roles (missing @ [missing_entry role col])
                else find_missing mapping fieldnames roles missing))"

record asset_entry =
  entry_asset_id :: string
  entry_created :: bool
  entry_x :: pyfloat
  entry_y :: pyfloat

record import_results =
  created :: nat
  updated :: nat
  errors :: "string list"
  assets :: "asset_entry list"

text \<open>What the loop reads but does not change: the project, the batch and the mapping.\<close>

record import_env =
  env_project :: nat
  env_batch :: nat
  env_mapping :: "(string, string) dict"

text \<open>What the loop changes: the database, \<open>asset_types_cache\<close> and \<open>results\<close>.\<close>

record import_state =
  st_db :: database
  asset_types_cache :: "(string, AssetType) dict"
  results :: import_results

definition col_id :: "(string, string) dict \<Rightarrow> string" where
  "col_id mapping = dict_get mapping ''asset_id'' []"

definition col_type :: "(string, string) dict \<Rightarrow> string" where
  "col_type mapping = dict_get mapping ''asset_type'' []"

definition col_x :: "(string, string) dict \<Rightarrow> string" where
  "col_x mapping = dict_get mapping ''x'' []"

definition col_y :: "(string, string) dict \<Rightarrow> string" where
  "col_y mapping = dict_get mapping ''y'' []"

definition col_name :: "(string, string) dict \<Rightarrow> string" where
  "col_name mapping = dict_get mapping ''name'' []"

definition mapped_columns :: "(string, string) dict \<Rightarrow> string set" where
  "mapped_columns mapping = set (dict_values mapping)"

text \<open>\<open>value.strip()\<close> on a value of a row dictionary.\<close>

fun cell_strip :: "cell \<Rightarrow> py_exception + string" where
  "cell_strip (Text s) = Inr (py_strip s)"
| "cell_strip PyNone =
     Inl (AttributeError (quote ''NoneType'' @ '' object has no attribute '' @ quote ''strip''))"
| "cell_strip (Rest l) =
     Inl (AttributeError (quote ''list'' @ '' object has no attribute '' @ quote ''strip''))"

fun cell_truthy :: "cell \<Rightarrow> bool" where
  "cell_truthy (Text s) = (s \<noteq> [])"
| "cell_truthy PyNone = False"
| "cell_truthy (Rest l) = (l \<noteq> [])"

text \<open>\<open>row.get(col, '').strip()\<close>.\<close>

definition row_get_strip :: "csv_row \<Rightarrow> string \<Rightarrow> py_exception + string" where
  "row_get_strip row col = cell_strip (dict_get row (Some col) (Text []))"

text \<open>The four assignments that open the \<open>try\<close> block: \<open>asset_id\<close>,
  \<open>asset_type_name\<close>, \<open>x_str\<close> and \<open>y_str\<close>, in this order.\<close>

definition extract_fields ::
  "(string, string) dict \<Rightarrow> csv_row \<Rightarrow> py_exception + (string \<times> string \<times> string \<times> string)" where
  "extract_fields mapping row =
     (case row_get_strip row (col_id mapping) of
        Inl e \<Rightarrow> Inl e
      | Inr aid \<Rightarrow>
          (case row_get_strip row (col_type mapping) of
             Inl e \<Rightarrow> Inl e
           | Inr asset_type_name \<Rightarrow>
               (case row_get_strip row (col_x mapping) of
                  Inl e \<Rightarrow> Inl e
                | Inr x_str \<Rightarrow>
                    (case row_get_strip row (col_y mapping) of
                       Inl e \<Rightarrow> Inl e
                     | Inr y_str \<Rightarrow> Inr (aid, asset_type_name, x_str, y_str)))))"

text \<open>\<open>x = float(x_str); y = float(y_str)\<close> under \<open>except ValueError\<close>.\<close>

definition parse_coordinates :: "string \<Rightarrow> string \<Rightarrow> (pyfloat \<times> pyfloat) option" where
  "parse_coordinates x_str y_str =
     (case py_float x_str of
        None \<Rightarrow> None
      | Some x \<Rightarrow> (case py_float y_str of None \<Rightarrow> None | Some y \<Rightarrow> Some (x, y)))"

text \<open>Get or create the asset type, through the cache keyed by the lower-cased name.\<close>

definition resolve_asset_type :: "import_state \<Rightarrow> string \<Rightarrow> import_state \<times> AssetType" where
  "resolve_asset_type st asset_type_name =
     (let asset_type_key = py_lower asset_type_name in
      if \<not> dict_contains (asset_types_cache st) asset_type_key then
        (case AssetType_create (st_db st) asset_type_name of
           (db', atype) \<Rightarrow>
             (st\<lparr>st_db := db', asset_types_cache := dict_set (asset_types_cache st) asset_type_key atype\<rparr>, atype))
      else
        (st, dict_get (asset_types_cache st) asset_type_key
               \<lparr>at_pk = 0, at_name = [], at_icon_shape = [], at_color = [], at_size = 0\<rparr>))"

text \<open>The metadata: the columns of the row that no role is mapped to, where the value
  is not empty.\<close>

definition build_metadata :: "(string, string) dict \<Rightarrow> csv_row \<Rightarrow> csv_row" where
  "build_metadata mapping row =
     foldl (\<lambda>metadata (key, val).
              if (case key of None \<Rightarrow> True | Some k \<Rightarrow> k \<notin> mapped_columns mapping) \<and> cell_truthy val
              then dict_set metadata key val else metadata) [] row"

text \<open>\<open>name = row.get(col_name, '').strip() if col_name else ''\<close>.\<close>

definition row_name :: "(string, string) dict \<Rightarrow> csv_row \<Rightarrow> py_exception + string" where
  "row_name mapping row = (if col_name mapping \<noteq> [] then row_get_strip row (col_name mapping) else Inr [])"

definition add_error :: "import_state \<Rightarrow> string \<Rightarrow> import_state" where
  "add_error st msg = st\<lparr>results := (results st)\<lparr>errors := errors (results st) @ [msg]\<rparr>\<rparr>"

definition row_prefix :: "nat \<Rightarrow> string" where
  "row_prefix row_num = ''Row '' @ py_str_nat row_num @ '': ''"

text \<open>The counters and the \<open>assets\<close> list after a successful upsert.\<close>

definition record_asset :: "import_results \<Rightarrow> string \<Rightarrow> bool \<Rightarrow> pyfloat \<Rightarrow> pyfloat \<Rightarrow> import_results" where
  "record_asset res aid was_created x y =
     (let res' = (if was_created then res\<lparr>created := created res + 1\<rparr>
                  else res\<lparr>updated := updated res + 1\<rparr>)
      in res'\<lparr>assets := assets res' @
                 [\<lparr>entry_asset_id = aid, entry_created = was_created, entry_x = x, entry_y = y\<rparr>]\<rparr>)"

text \<open>
  The body of the \<open>try\<close> for one row: the state it leaves and the exception it raises, if
  any. A \<open>continue\<close> after an \<open>errors.append\<close> leaves the body without an exception.
\<close>

definition try_row :: "import_env \<Rightarrow> nat \<Rightarrow> csv_row \<Rightarrow> import_state \<Rightarrow> import_state \<times> py_exception option" where
  "try_row env row_num row st =
     (case extract_fields (env_mapping env) row of
        Inl e \<Rightarrow> (st, Some e)
      | Inr (aid, asset_type_name, x_str, y_str) \<Rightarrow>
          if aid = [] then
            (add_error st (row_prefix row_num @ ''Missing asset_id (column '' @ quote (col_id (env_mapping env)) @ '')''), None)
          else if asset_type_name = [] then
            (add_error st (row_prefix row_num @ ''Missing asset_type (column '' @ quote (col_type (env_mapping env)) @ '')''), None)
          else
            (case parse_coordinates x_str y_str of
               None \<Rightarrow>
                 (add_error st (row_prefix row_num @ ''Invalid coordinates ('' @ col_x (env_mapping env) @ ''='' @ x_str @
                                '', '' @ col_y (env_mapping env) @ ''='' @ y_str @ '')''), None)
             | Some (x, y) \<Rightarrow>
                 (case resolve_asset_type st asset_type_name of
                    (st1, atype) \<Rightarrow>
                      let metadata = build_metadata (env_mapping env) row in
                      (case row_name (env_mapping env) row of
                         Inl e \<Rightarrow> (st1, Some e)
                       | Inr nm \<Rightarrow>
                           (case Asset_update_or_create (st_db st1) (env_project env) aid (at_pk atype) nm x y
                                   metadata (env_batch env) of
                              Inl e \<Rightarrow> (st1, Some e)
                            | Inr (db', was_created) \<Rightarrow>
                                (st1\<lparr>st_db := db',
                                     results := record_asset (results st1) aid was_created x y\<rparr>,
                                 None))))))"

text \<open>One iteration of the loop: the \<open>try\<close> body under \<open>except Exception as e\<close>.\<close>

definition process_row :: "import_env \<Rightarrow> nat \<Rightarrow> csv_row \<Rightarrow> import_state \<Rightarrow> import_state" where
  "process_row env row_num row st =
     (case try_row env row_num row st of
        (st', None) \<Rightarrow> st'
      | (st', Some e) \<Rightarrow> add_error st' (row_prefix row_num @ str_exc e))"

text \<open>
  \<open>for row_num, row in enumerate(reader, start=2)\<close>, from row number \<open>row_num\<close> on, over
  the reads that remain. The \<open>for\<close> header asks the \<open>DictReader\<close> for the next row, outside
  the \<open>try\<close>: a \<open>csv.Error\<close> of the reader leaves the loop, an empty record is skipped
  without a row number, and any other record becomes the row dictionary of the body.
\<close>

fun import_rows ::
  "import_env \<Rightarrow> string list \<Rightarrow> nat \<Rightarrow> csv_read list \<Rightarrow> import_state \<Rightarrow> py_exception + import_state" where
  "import_rows env fieldnames row_num [] st = Inr st"
| "import_rows env fieldnames row_num (ReadError msg # reads) st = Inl (CsvError msg)"
| "import_rows env fieldnames row_num (ReadRow row # reads) st =
     (if row = [] then import_rows env fieldnames row_num reads st
      else import_rows env fieldnames (Suc row_num) reads
             (process_row env row_num (dictreader_row fieldnames row) st))"

text \<open>\<open>mapping = {**DEFAULT_MAPPING, **(column_mapping or {})}\<close>.\<close>

definition merged_mapping :: "(string, string) dict option \<Rightarrow> (string, string) dict" where
  "merged_mapping column_mapping =
     dict_merge DEFAULT_MAPPING (case column_mapping of None \<Rightarrow> [] | Some m \<Rightarrow> m)"

text \<open>\<open>batch_filename = filename or getattr(csv_file, 'name', 'unknown.csv')\<close>.\<close>

definition batch_filename_of :: "string option \<Rightarrow> csv_file \<Rightarrow> string" where
  "batch_filename_of fname file =
     (case fname of
        Some n \<Rightarrow> if n \<noteq> [] then n else (case csv_name file of Some m \<Rightarrow> m | None \<Rightarrow> ''unknown.csv'')
      | None \<Rightarrow> (case csv_name file of Some m \<Rightarrow> m | None \<Rightarrow> ''unknown.csv''))"

text \<open>
  What the loop starts from: the cache built from \<open>AssetType.objects.all()\<close>, the empty
  \<open>results\<close> and the database with the new batch, whose \<open>asset_count\<close> is 0.
\<close>

definition start_import ::
  "database \<Rightarrow> nat \<Rightarrow> csv_file \<Rightarrow> (string, string) dict option \<Rightarrow> string option
     \<Rightarrow> import_env \<times> import_state" where
  "start_import db proj file column_mapping fname =
     (let cache = dict_merge [] (map (\<lambda>t. (py_lower (at_name t), t)) (db_asset_types db));
          res = \<lparr>created = 0, updated = 0, errors = [], assets = []\<rparr>
      in (case ImportBatch_create db proj (batch_filename_of fname file) 0 of
            (db1, batch) \<Rightarrow>
              (\<lparr>env_project = proj, env_batch = batch_pk batch, env_mapping = merged_mapping column_mapping\<rparr>,
               \<lparr>st_db = db1, asset_types_cache = cache, results = res\<rparr>)))"

text \<open>
  \<open>import_assets_from_csv(project, csv_file, column_mapping=None, filename=None)\<close> on the
  database \<open>db\<close>: what the call returns or raises, and the database it leaves. The
  exceptions of the header read and of the column check are raised before the
  \<open>transaction.atomic()\<close> block is entered. Inside the block every exception of the loop
  body is caught; a \<open>csv.Error\<close> of the reader is not, it leaves the block, which rolls the
  database back, and reaches the caller. A reader without field names has no rows.
\<close>

definition import_assets_from_csv ::
  "database \<Rightarrow> nat \<Rightarrow> csv_file \<Rightarrow> (string, string) dict option \<Rightarrow> string option
     \<Rightarrow> (py_exception + import_results) \<times> database" where
  "import_assets_from_csv db proj file column_mapping fname =
     (case reader_fieldnames file of
        Inl e \<Rightarrow> (Inl e, db)
      | Inr fieldnames \<Rightarrow>
          (case find_missing (merged_mapping column_mapping) fieldnames required_roles [] of
             Inl e \<Rightarrow> (Inl e, db)
           | Inr missing \<Rightarrow>
               if missing \<noteq> [] then
                 (Inl (ValueError (''Missing columns in CSV: '' @ py_join '', '' missing)), db)
               else
                 (case start_import db proj file column_mapping fname of
                    (env, st0) \<Rightarrow>
                      (case import_rows env (case fieldnames of Some names \<Rightarrow> names | None \<Rightarrow> []) 2
                              (tl (csv_reads file)) st0 of
                         Inl e \<Rightarrow> (Inl e, db)
                       | Inr st \<Rightarrow>
                           let n = created (results st) + updated (results st)
                           in (Inr (results st),
                               ImportBatch_save_asset_count (st_db st) (env_batch env) n)))))"

section \<open>Notions used to state the properties\<close>

text \<open>The file can be read to its end: no read raises \<open>csv.Error\<close>.\<close>

definition csv_readable :: "csv_file \<Rightarrow> bool" where
  "csv_readable f \<longleftrightarrow> list_all (\<lambda>r. case r of ReadRow _ \<Rightarrow> True | ReadError _ \<Rightarrow> False) (csv_reads f)"

text \<open>The records read before the first \<open>csv.Error\<close>, and the row dictionaries that the
  \<open>DictReader\<close> makes of those after the header: the empty ones are skipped.\<close>

fun rows_read :: "csv_read list \<Rightarrow> string list list" where
  "rows_read [] = []"
| "rows_read (ReadRow row # reads) = row # rows_read reads"
| "rows_read (ReadError msg # reads) = []"

definition reader_rows :: "csv_file \<Rightarrow> csv_row list" where
  "reader_rows f =
     (case csv_reads f of
        ReadRow fieldnames # reads \<Rightarrow>
          map (dictreader_row fieldnames) (filter (\<lambda>row. row \<noteq> []) (rows_read reads))
      | _ \<Rightarrow> [])"

text \<open>The loop body applied in turn to rows that have been read, from row number
  \<open>row_num\<close> on.\<close>

fun process_rows :: "import_env \<Rightarrow> nat \<Rightarrow> csv_row list \<Rightarrow> import_state \<Rightarrow> import_state" where
  "process_rows env row_num [] st = st"
| "process_rows env row_num (row # rows) st = process_rows env (Suc row_num) rows (process_row env row_num row st)"

text \<open>
  A row is valid when the loop body reaches the upsert: the four fields and the name can be
  read, the asset id and the type name are not empty and both coordinates parse.
\<close>

definition valid_row :: "(string, string) dict \<Rightarrow> csv_row \<Rightarrow> bool" where
  "valid_row mapping row \<longleftrightarrow>
     (case extract_fields mapping row of
        Inl _ \<Rightarrow> False
      | Inr (aid, asset_type_name, x_str, y_str) \<Rightarrow>
          aid \<noteq> [] \<and> asset_type_name \<noteq> [] \<and> parse_coordinates x_str y_str \<noteq> None \<and>
          (case row_name mapping row of Inl _ \<Rightarrow> False | Inr _ \<Rightarrow> True))"

text \<open>A row is rejected when it fails before anything is written: a field cannot be
  read, the asset id or the type name is empty, or a coordinate does not parse.\<close>

definition row_rejected :: "(string, string) dict \<Rightarrow> csv_row \<Rightarrow> bool" where
  "row_rejected mapping row \<longleftrightarrow>
     (case extract_fields mapping row of
        Inl _ \<Rightarrow> True
      | Inr (aid, asset_type_name, x_str, y_str) \<Rightarrow>
          aid = [] \<or> asset_type_name = [] \<or> parse_coordinates x_str y_str = None)"

text \<open>The asset id, the type name and the coordinates that a row carries.\<close>

definition row_asset_id :: "(string, string) dict \<Rightarrow> csv_row \<Rightarrow> string" where
  "row_asset_id mapping row =
     (case extract_fields mapping row of Inl _ \<Rightarrow> [] | Inr (aid, _, _, _) \<Rightarrow> aid)"

definition row_type_name :: "(string, string) dict \<Rightarrow> csv_row \<Rightarrow> string" where
  "row_type_name mapping row =
     (case extract_fields mapping row of Inl _ \<Rightarrow> [] | Inr (_, asset_type_name, _, _) \<Rightarrow> asset_type_name)"

definition row_coordinates :: "(string, string) dict \<Rightarrow> csv_row \<Rightarrow> (pyfloat \<times> pyfloat) option" where
  "row_coordinates mapping row =
     (case extract_fields mapping row of
        Inl _ \<Rightarrow> None
      | Inr (_, _, x_str, y_str) \<Rightarrow> parse_coordinates x_str y_str)"

text \<open>The key of the upsert, and the uniqueness of \<open>(project, asset_id)\<close> that the
  database enforces on the asset table.\<close>

definition asset_key :: "Asset \<Rightarrow> nat \<times> string" where
  "asset_key a = (asset_project a, asset_id a)"

definition unique_assets :: "database \<Rightarrow> bool" where
  "unique_assets db \<longleftrightarrow> distinct (map asset_key (db_assets db))"

definition assets_with_key :: "database \<Rightarrow> nat \<Rightarrow> string \<Rightarrow> Asset list" where
  "assets_with_key db proj aid = filter (\<lambda>a. asset_project a = proj \<and> asset_id a = aid) (db_assets db)"

definition project_assets :: "database \<Rightarrow> nat \<Rightarrow> Asset list" where
  "project_assets db proj = filter (\<lambda>a. asset_project a = proj) (db_assets db)"

text \<open>The cache agrees with the asset-type table: every cached type is a row of the
  table and is filed under its lower-cased name.\<close>

definition cache_consistent :: "import_state \<Rightarrow> bool" where
  "cache_consistent st \<longleftrightarrow>
     (\<forall>k t. map_of (asset_types_cache st) k = Some t \<longrightarrow>
        t \<in> set (db_asset_types (st_db st)) \<and> py_lower (at_name t) = k)"


text \<open>The required columns are all present in the header.\<close>

definition columns_present :: "csv_file \<Rightarrow> (string, string) dict option \<Rightarrow> bool" where
  "columns_present file column_mapping \<longleftrightarrow>
     (case reader_fieldnames file of
        Inl _ \<Rightarrow> False
      | Inr None \<Rightarrow> False
      | Inr (Some names) \<Rightarrow>
          list_all (\<lambda>role. dict_get (merged_mapping column_mapping) role [] \<noteq> [] \<and>
                          dict_get (merged_mapping column_mapping) role [] \<in> set names) required_roles)"

section \<open>Test data (\<open>drawings/tests.py\<close>)\<close>

text \<open>
  The helper \<open>make_csv_content\<close> of the tests: an upload named \<open>test.csv\<close> with a header
  record and one record for each row. The tests start from a database without assets; here
  it has no asset types and no batches either.
\<close>

definition make_csv_content :: "string list \<Rightarrow> string list list \<Rightarrow> csv_file" where
  "make_csv_content fieldnames rows =
     \<lparr>csv_reads = ReadRow fieldnames # map ReadRow rows, csv_name = Some ''test.csv''\<rparr>"

definition empty_database :: database where
  "empty_database = \<lparr>db_asset_types = [], db_import_batches = [], db_assets = []\<rparr>"

definition default_header :: "string list" where
  "default_header = [''asset_id'', ''asset_type'', ''x'', ''y'', ''name'']"

section \<open>The check of the required columns\<close>

lemma find_missing_header:
  "find_missing mapping (Some names) roles missing =
     Inr (missing @ map (\<lambda>role. missing_entry role (dict_get mapping role []))
                        (filter (\<lambda>role. dict_get mapping role [] = [] \<or>
                                         dict_get mapping role [] \<notin> set names) roles))"
  by (induction roles arbitrary: missing) (auto simp: Let_def)

lemma find_missing_no_header:
  "find_missing mapping None roles missing = Inr m \<Longrightarrow> length m = length missing + length roles"
  by (induction roles arbitrary: missing) (auto simp: Let_def split: if_splits)

lemma columns_present_iff:
  "columns_present file column_mapping \<longleftrightarrow>
     (\<exists>fieldnames. reader_fieldnames file = Inr fieldnames \<and>
        find_missing (merged_mapping column_mapping) fieldnames required_roles [] = Inr [])"
proof (cases "reader_fieldnames file")
  case (Inl e)
  then show ?thesis by (simp add: columns_present_def)
next
  case (Inr fieldnames)
  show ?thesis
  proof (cases fieldnames)
    case None
    have "find_missing (merged_mapping column_mapping) None required_roles [] \<noteq> Inr []"
      using find_missing_no_header [of "merged_mapping column_mapping" required_roles "[]" "[]"]
      by (auto simp: required_roles_def)
    with Inr None show ?thesis by (simp add: columns_present_def)
  next
    case (Some names)
    with Inr show ?thesis
      by (simp add: columns_present_def find_missing_header filter_empty_conv list_all_iff)
  qed
qed

section \<open>The reader\<close>

lemma import_rows_readable:
  assumes "list_all (\<lambda>r. case r of ReadRow _ \<Rightarrow> True | ReadError _ \<Rightarrow> False) reads"
  shows "import_rows env fieldnames n reads st =
           Inr (process_rows env n (map (dictreader_row fieldnames)
                                        (filter (\<lambda>row. row \<noteq> []) (rows_read reads))) st)"
  using assms
proof (induction reads arbitrary: n st)
  case Nil
  then show ?case by simp
next
  case (Cons r reads)
  then show ?case by (cases r) auto
qed

lemma import_rows_unreadable:
  assumes "\<not> list_all (\<lambda>r. case r of ReadRow _ \<Rightarrow> True | ReadError _ \<Rightarrow> False) reads"
  shows "\<exists>msg. import_rows env fieldnames n reads st = Inl (CsvError msg)"
  using assms
proof (induction reads arbitrary: n st)
  case Nil
  then show ?case by simp
next
  case (Cons r reads)
  then show ?case by (cases r) auto
qed

lemma import_when_columns_present:
  assumes "columns_present file column_mapping" and "csv_readable file"
  shows "import_assets_from_csv db proj file column_mapping fname =
           (let env = fst (start_import db proj file column_mapping fname);
                st = process_rows env 2 (reader_rows file) (snd (start_import db proj file column_mapping fname))
            in (Inr (results st),
                ImportBatch_save_asset_count (st_db st) (env_batch env)
                  (created (results st) + updated (results st))))"
proof -
  from assms(1) obtain names where fn: "reader_fieldnames file = Inr (Some names)"
    by (auto simp: columns_present_def split: sum.splits option.splits)
  then obtain reads where reads: "csv_reads file = ReadRow names # reads"
    by (auto simp: reader_fieldnames_def split: list.splits csv_read.splits)
  from assms(1) fn
  have missing: "find_missing (merged_mapping column_mapping) (Some names) required_roles [] = Inr []"
    unfolding columns_present_iff by simp
  from assms(2) reads
  have "list_all (\<lambda>r. case r of ReadRow _ \<Rightarrow> True | ReadError _ \<Rightarrow> False) reads"
    by (simp add: csv_readable_def)
  from import_rows_readable [OF this] reads missing show ?thesis
    by (simp add: import_assets_from_csv_def reader_fieldnames_def reader_rows_def Let_def
             split: prod.splits)
qed

lemma import_when_columns_absent:
  assumes "\<not> columns_present file column_mapping"
  shows "\<exists>e. import_assets_from_csv db proj file column_mapping fname = (Inl e, db)"
  using assms unfolding columns_present_iff
  by (auto simp: import_assets_from_csv_def split: sum.splits)

lemma import_when_unreadable:
  assumes "\<not> csv_readable file"
  shows "\<exists>e. import_assets_from_csv db proj file column_mapping fname = (Inl e, db)"
proof (cases "csv_reads file")
  case Nil
  with assms show ?thesis by (simp add: csv_readable_def)
next
  case (Cons r reads)
  show ?thesis
  proof (cases r)
    case (ReadError msg)
    with Cons show ?thesis
      by (simp add: import_assets_from_csv_def reader_fieldnames_def)
  next
    case (ReadRow names)
    with Cons assms
    have "\<not> list_all (\<lambda>r. case r of ReadRow _ \<Rightarrow> True | ReadError _ \<Rightarrow> False) reads"
      by (simp add: csv_readable_def)
    from import_rows_unreadable [OF this] Cons ReadRow show ?thesis
      by (auto simp: import_assets_from_csv_def reader_fieldnames_def split: sum.splits prod.splits)
         (metis Inl_Inr_False)+
  qed
qed

lemma import_returns:
  assumes "import_assets_from_csv db proj file column_mapping fname = (Inr r, db')"
  shows "columns_present file column_mapping" and "csv_readable file"
  using assms import_when_columns_absent [of "file" column_mapping db proj fname]
        import_when_unreadable [of "file" db proj column_mapping fname]
  by auto

lemma make_csv_content_readable [simp]: "csv_readable (make_csv_content fieldnames rows)"
  by (simp add: csv_readable_def make_csv_content_def list_all_iff)

lemma make_csv_content_rows [simp]:
  "reader_rows (make_csv_content fieldnames rows) =
     map (dictreader_row fieldnames) (filter (\<lambda>row. row \<noteq> []) rows)"
proof -
  have "rows_read (map ReadRow rows) = rows" by (induction rows) simp_all
  then show ?thesis by (simp add: reader_rows_def make_csv_content_def)
qed

section \<open>Primary keys\<close>

lemma foldr_max_ge: "x \<in> set pks \<Longrightarrow> x \<le> foldr max pks (0::nat)"
  by (induction pks) (auto simp: max_def)

lemma next_pk_fresh: "next_pk pks \<notin> set pks"
  using foldr_max_ge [of "next_pk pks" pks] by (auto simp: next_pk_def)

section \<open>What one row does\<close>

lemma resolve_asset_type_frame [simp]:
  "results (fst (resolve_asset_type st tn)) = results st"
  "db_assets (st_db (fst (resolve_asset_type st tn))) = db_assets (st_db st)"
  "db_import_batches (st_db (fst (resolve_asset_type st tn))) = db_import_batches (st_db st)"
  by (simp_all add: resolve_asset_type_def AssetType_create_def Let_def)

lemma resolve_asset_type_types:
  "\<exists>new. db_asset_types (st_db (fst (resolve_asset_type st tn))) = db_asset_types (st_db st) @ new"
  by (simp add: resolve_asset_type_def AssetType_create_def Let_def)

lemma update_or_create_frame:
  assumes "Asset_update_or_create db proj aid ty nm x y meta b = Inr (db', c)"
  shows "db_asset_types db' = db_asset_types db" and "db_import_batches db' = db_import_batches db"
  using assms by (auto simp: Asset_update_or_create_def split: list.splits)

lemma filter_key_distinct:
  assumes "distinct (map f xs)"
  shows "filter (\<lambda>a. f a = k) xs = [] \<or> (\<exists>a. filter (\<lambda>a. f a = k) xs = [a])"
  using assms
proof (induction xs)
  case Nil
  then show ?case by simp
next
  case (Cons a xs)
  then show ?case
    by (cases "f a = k") (auto simp: filter_empty_conv image_iff)
qed

lemma assets_with_key_alt:
  "assets_with_key db proj aid = filter (\<lambda>a. asset_key a = (proj, aid)) (db_assets db)"
  by (simp add: assets_with_key_def asset_key_def)

lemma assets_with_key_unique:
  assumes "unique_assets db"
  shows "assets_with_key db proj aid = [] \<or> (\<exists>a. assets_with_key db proj aid = [a])"
  using filter_key_distinct [of asset_key "db_assets db" "(proj, aid)"] assms
  by (simp add: assets_with_key_alt unique_assets_def)

lemma assets_with_key_empty_iff:
  "assets_with_key db proj aid = [] \<longleftrightarrow> (proj, aid) \<notin> set (map asset_key (db_assets db))"
  by (force simp: assets_with_key_alt filter_empty_conv)

text \<open>The upsert on a table with unique keys: it creates exactly when the key is new.\<close>

lemma update_or_create_created:
  assumes "(proj, aid) \<notin> set (map asset_key (db_assets db))"
  shows "Asset_update_or_create db proj aid ty nm x y meta b =
           Inr (db\<lparr>db_assets := db_assets db @
                  [\<lparr>asset_project = proj, asset_id = aid, asset_type = ty, asset_name = nm,
                    original_x = x, original_y = y, adjusted_x = None, adjusted_y = None,
                    is_adjusted = False, asset_metadata = meta, asset_import_batch = Some b\<rparr>]\<rparr>, True)"
proof -
  from assms have "assets_with_key db proj aid = []"
    by (simp only: assets_with_key_empty_iff not_False_eq_True)
  then show ?thesis
    by (simp add: Asset_update_or_create_def assets_with_key_def)
qed

lemma update_or_create_updated:
  assumes "unique_assets db" and "(proj, aid) \<in> set (map asset_key (db_assets db))"
  shows "Asset_update_or_create db proj aid ty nm x y meta b =
           Inr (db\<lparr>db_assets :=
                  map (\<lambda>a. if asset_project a = proj \<and> asset_id a = aid
                           then a\<lparr>asset_type := ty, asset_name := nm, original_x := x,
                                  original_y := y, asset_metadata := meta,
                                  asset_import_batch := Some b\<rparr>
                           else a) (db_assets db)\<rparr>, False)"
proof -
  from assms(2) have "assets_with_key db proj aid \<noteq> []"
    by (simp only: assets_with_key_empty_iff not_not)
  with assets_with_key_unique [OF assms(1), of proj aid]
  obtain a where "assets_with_key db proj aid = [a]" by blast
  then show ?thesis
    by (simp add: Asset_update_or_create_def assets_with_key_def)
qed

lemma asset_key_update [simp]:
  "asset_key (a\<lparr>asset_type := ty, asset_name := nm, original_x := x, original_y := y,
               asset_metadata := meta, asset_import_batch := bb\<rparr>) = asset_key a"
  by (simp add: asset_key_def)

lemma update_or_create_keys:
  assumes "unique_assets db"
    and "Asset_update_or_create db proj aid ty nm x y meta b = Inr (db', c)"
  shows "c = ((proj, aid) \<notin> set (map asset_key (db_assets db)))"
    and "map asset_key (db_assets db') =
           (if c then map asset_key (db_assets db) @ [(proj, aid)] else map asset_key (db_assets db))"
proof -
  show "c = ((proj, aid) \<notin> set (map asset_key (db_assets db)))"
  proof (cases "(proj, aid) \<in> set (map asset_key (db_assets db))")
    case True
    from update_or_create_updated [OF assms(1) True] assms(2) show ?thesis using True by simp
  next
    case False
    from update_or_create_created [OF False] assms(2) show ?thesis using False by simp
  qed
  show "map asset_key (db_assets db') =
           (if c then map asset_key (db_assets db) @ [(proj, aid)] else map asset_key (db_assets db))"
  proof (cases "(proj, aid) \<in> set (map asset_key (db_assets db))")
    case True
    have "map asset_key (map (\<lambda>a. if asset_project a = proj \<and> asset_id a = aid
                           then a\<lparr>asset_type := ty, asset_name := nm, original_x := x,
                                  original_y := y, asset_metadata := meta,
                                  asset_import_batch := Some b\<rparr>
                           else a) (db_assets db)) = map asset_key (db_assets db)"
      by (induction "db_assets db") (auto simp: asset_key_def)
    with update_or_create_updated [OF assms(1) True, of ty nm x y meta b] assms(2) show ?thesis
      by auto
  next
    case False
    from update_or_create_created [OF False, of ty nm x y meta b] assms(2) show ?thesis
      by (auto simp: asset_key_def)
  qed
qed

lemma update_or_create_total:
  assumes "unique_assets db"
  shows "\<exists>db' c. Asset_update_or_create db proj aid ty nm x y meta b = Inr (db', c)"
proof (cases "(proj, aid) \<in> set (map asset_key (db_assets db))")
  case True
  from update_or_create_updated [OF assms True] show ?thesis by blast
next
  case False
  from update_or_create_created [OF False] show ?thesis by blast
qed

lemma update_or_create_unique:
  assumes "unique_assets db"
    and "Asset_update_or_create db proj aid ty nm x y meta b = Inr (db', c)"
  shows "unique_assets db'"
  using update_or_create_keys [OF assms] assms(1)
  by (auto simp: unique_assets_def split: if_splits)

lemma update_or_create_frame_pair:
  assumes "Asset_update_or_create db proj aid ty nm x y meta b = Inr p"
  shows "db_asset_types (fst p) = db_asset_types db \<and> db_import_batches (fst p) = db_import_batches db"
  using update_or_create_frame [of db proj aid ty nm x y meta b "fst p" "snd p"] assms by simp

text \<open>Every row either appends one error that starts with its row number, leaving the
  counters, the \<open>assets\<close> list and the asset table as they were, or records one upsert.\<close>

lemma process_row_outcome:
  "(\<exists>msg st1. process_row env n row st = add_error st1 (row_prefix n @ msg) \<and>
               results st1 = results st \<and> db_assets (st_db st1) = db_assets (st_db st)) \<or>
   (\<exists>aid c x y. results (process_row env n row st) = record_asset (results st) aid c x y)"
proof (cases "try_row env n row st")
  case (Pair st' exc)
  show ?thesis
  proof (cases exc)
    case (Some e)
    with Pair have "results st' = results st \<and> db_assets (st_db st') = db_assets (st_db st)"
      by (auto simp: try_row_def add_error_def Let_def case_prod_beta
               split: sum.splits option.splits if_splits)
    with Pair Some show ?thesis
      by (auto simp: process_row_def)
  next
    case None
    with Pair have
      "(\<exists>msg. st' = add_error st (row_prefix n @ msg)) \<or>
       (\<exists>aid c x y. results st' = record_asset (results st) aid c x y)"
      by (fastforce simp: try_row_def Let_def case_prod_beta
               split: sum.splits option.splits if_splits)
    with Pair None show ?thesis
      by (auto simp: process_row_def)
  qed
qed

lemma process_row_rejected:
  assumes "row_rejected (env_mapping env) row"
  shows "\<exists>msg. process_row env n row st = add_error st (row_prefix n @ msg)"
  using assms
  by (auto simp: row_rejected_def process_row_def try_row_def case_prod_beta split: sum.splits)

lemma process_row_batches [simp]:
  "db_import_batches (st_db (process_row env n row st)) = db_import_batches (st_db st)"
  by (auto simp: process_row_def try_row_def add_error_def Let_def case_prod_beta
           split: sum.splits option.splits if_splits
           dest: update_or_create_frame_pair)

lemma process_row_errors_grow:
  "\<exists>new. errors (results (process_row env n row st)) = errors (results st) @ new"
  using process_row_outcome [of env n row st]
  by (auto simp: add_error_def record_asset_def Let_def)

section \<open>The loop over the rows\<close>

lemma process_rows_append:
  "process_rows env n (xs @ ys) st = process_rows env (n + length xs) ys (process_rows env n xs st)"
  by (induction xs arbitrary: n st) simp_all

lemma process_rows_batches [simp]:
  "db_import_batches (st_db (process_rows env n rows st)) = db_import_batches (st_db st)"
  by (induction rows arbitrary: n st) simp_all

lemma process_rows_errors_grow:
  "\<exists>new. errors (results (process_rows env n rows st)) = errors (results st) @ new"
proof (induction rows arbitrary: n st)
  case Nil
  then show ?case by simp
next
  case (Cons row rows)
  from Cons [of "Suc n" "process_row env n row st"] process_row_errors_grow [of env n row st]
  show ?case by auto
qed

text \<open>Each row ends in exactly one of the two lists, and the counters count the
  \<open>assets\<close> list.\<close>

lemma process_row_totals:
  "length (errors (results (process_row env n row st))) + length (assets (results (process_row env n row st)))
     = Suc (length (errors (results st)) + length (assets (results st))) \<and>
   created (results (process_row env n row st)) + updated (results (process_row env n row st))
     + length (assets (results st))
     = created (results st) + updated (results st) + length (assets (results (process_row env n row st)))"
  using process_row_outcome [of env n row st]
  by (auto simp: add_error_def record_asset_def Let_def)

lemma process_rows_totals:
  "length (errors (results (process_rows env n rows st))) + length (assets (results (process_rows env n rows st)))
     = length (errors (results st)) + length (assets (results st)) + length rows \<and>
   created (results (process_rows env n rows st)) + updated (results (process_rows env n rows st))
     + length (assets (results st))
     = created (results st) + updated (results st) + length (assets (results (process_rows env n rows st)))"
proof (induction rows arbitrary: n st)
  case Nil
  then show ?case by simp
next
  case (Cons row rows)
  from Cons [of "Suc n" "process_row env n row st"] process_row_totals [of env n row st]
  show ?case by simp
qed

lemma process_rows_rejected:
  assumes "\<forall>row \<in> set rows. row_rejected (env_mapping env) row"
  shows "\<exists>msgs. length msgs = length rows \<and>
           process_rows env n rows st = st\<lparr>results := (results st)\<lparr>errors := errors (results st) @ msgs\<rparr>\<rparr>"
  using assms
proof (induction rows arbitrary: n st)
  case Nil
  then show ?case by simp
next
  case (Cons row rows)
  from Cons.prems process_row_rejected [of env row n st]
  obtain msg where step: "process_row env n row st = add_error st (row_prefix n @ msg)" by auto
  from Cons.IH [of "Suc n" "add_error st (row_prefix n @ msg)"] Cons.prems
  obtain msgs where "length msgs = length rows"
    and "process_rows env (Suc n) rows (add_error st (row_prefix n @ msg)) =
           (add_error st (row_prefix n @ msg))
             \<lparr>results := (results (add_error st (row_prefix n @ msg)))
                \<lparr>errors := errors (results (add_error st (row_prefix n @ msg))) @ msgs\<rparr>\<rparr>"
    by auto
  with step show ?case
    by (intro exI [of _ "(row_prefix n @ msg) # msgs"]) (simp add: add_error_def)
qed

section \<open>The start of an import\<close>

lemma start_import_simps [simp]:
  "env_project (fst (start_import db proj file cm fname)) = proj"
  "env_batch (fst (start_import db proj file cm fname)) = next_pk (map batch_pk (db_import_batches db))"
  "env_mapping (fst (start_import db proj file cm fname)) = merged_mapping cm"
  "results (snd (start_import db proj file cm fname)) = \<lparr>created = 0, updated = 0, errors = [], assets = []\<rparr>"
  "db_assets (st_db (snd (start_import db proj file cm fname))) = db_assets db"
  "db_asset_types (st_db (snd (start_import db proj file cm fname))) = db_asset_types db"
  "db_import_batches (st_db (snd (start_import db proj file cm fname))) =
     db_import_batches db @
       [\<lparr>batch_pk = next_pk (map batch_pk (db_import_batches db)), batch_project = proj,
         batch_filename = batch_filename_of fname file, batch_asset_count = 0\<rparr>]"
  by (simp_all add: start_import_def ImportBatch_create_def Let_def)

lemma save_asset_count_new_batch:
  assumes "db_import_batches d = bs @ [\<lparr>batch_pk = next_pk (map batch_pk bs), batch_project = proj,
                                         batch_filename = nm, batch_asset_count = k\<rparr>]"
  shows "db_import_batches (ImportBatch_save_asset_count d (next_pk (map batch_pk bs)) n) =
           bs @ [\<lparr>batch_pk = next_pk (map batch_pk bs), batch_project = proj,
                   batch_filename = nm, batch_asset_count = n\<rparr>]"
proof -
  have "map (\<lambda>b. if batch_pk b = next_pk (map batch_pk bs) then b\<lparr>batch_asset_count := n\<rparr> else b) bs = bs"
    using next_pk_fresh [of "map batch_pk bs"] by (intro map_idI) force
  with assms show ?thesis
    by (simp add: ImportBatch_save_asset_count_def)
qed

lemma save_asset_count_frame [simp]:
  "db_assets (ImportBatch_save_asset_count d pk n) = db_assets d"
  "db_asset_types (ImportBatch_save_asset_count d pk n) = db_asset_types d"
  by (simp_all add: ImportBatch_save_asset_count_def)

section \<open>The upsert, key by key\<close>





section \<open>The asset-type cache\<close>

lemma map_of_dict_set: "map_of (dict_set d k v) = (map_of d)(k \<mapsto> v)"
  by (induction d) auto



lemma resolve_asset_type_consistent:
  assumes "cache_consistent st"
  shows "cache_consistent (fst (resolve_asset_type st tn))"
    and "snd (resolve_asset_type st tn) \<in> set (db_asset_types (st_db (fst (resolve_asset_type st tn))))"
    and "py_lower (at_name (snd (resolve_asset_type st tn))) = py_lower tn"
  using assms
  by (auto simp: cache_consistent_def resolve_asset_type_def AssetType_create_def Let_def
                 dict_contains_def dict_get_def map_of_dict_set)

section \<open>Valid and invalid rows\<close>

lemma resolve_asset_type_unique [simp]:
  "unique_assets (st_db (fst (resolve_asset_type st tn))) = unique_assets (st_db st)"
  by (simp add: unique_assets_def)

text \<open>A valid row, on a table with unique keys, resolves its type and upserts; it
  creates exactly when its key is new.\<close>

lemma process_row_valid:
  assumes "valid_row (env_mapping env) row" and "unique_assets (st_db st)"
  shows "\<exists>x y nm db'.
     row_coordinates (env_mapping env) row = Some (x, y) \<and>
     row_name (env_mapping env) row = Inr nm \<and>
     Asset_update_or_create (st_db (fst (resolve_asset_type st (row_type_name (env_mapping env) row))))
        (env_project env) (row_asset_id (env_mapping env) row)
        (at_pk (snd (resolve_asset_type st (row_type_name (env_mapping env) row)))) nm x y
        (build_metadata (env_mapping env) row) (env_batch env)
       = Inr (db', (env_project env, row_asset_id (env_mapping env) row)
                     \<notin> set (map asset_key (db_assets (st_db st)))) \<and>
     process_row env n row st =
       (fst (resolve_asset_type st (row_type_name (env_mapping env) row)))
         \<lparr>st_db := db',
          results := record_asset (results st) (row_asset_id (env_mapping env) row)
                       ((env_project env, row_asset_id (env_mapping env) row)
                          \<notin> set (map asset_key (db_assets (st_db st)))) x y\<rparr>"
proof -
  from assms(1) obtain aid tn xs ys x y nm where
    fields: "extract_fields (env_mapping env) row = Inr (aid, tn, xs, ys)"
    and ne: "aid \<noteq> []" "tn \<noteq> []"
    and coords: "parse_coordinates xs ys = Some (x, y)"
    and name: "row_name (env_mapping env) row = Inr nm"
    by (auto simp: valid_row_def split: sum.splits)
  define st1 where "st1 = fst (resolve_asset_type st tn)"
  define t where "t = snd (resolve_asset_type st tn)"
  have u1: "unique_assets (st_db st1)"
    using assms(2) by (simp add: st1_def)
  from update_or_create_total [OF u1, of "env_project env" aid "at_pk t" nm x y
         "build_metadata (env_mapping env) row" "env_batch env"]
  obtain db' c where uoc: "Asset_update_or_create (st_db st1) (env_project env) aid (at_pk t) nm x y
         (build_metadata (env_mapping env) row) (env_batch env) = Inr (db', c)"
    by blast
  from update_or_create_keys(1) [OF u1 uoc]
  have c: "c = ((env_project env, aid) \<notin> set (map asset_key (db_assets (st_db st))))"
    by (simp add: st1_def)
  have step: "process_row env n row st = st1\<lparr>st_db := db', results := record_asset (results st) aid c x y\<rparr>"
    using fields ne coords name uoc
    by (simp add: process_row_def try_row_def case_prod_beta Let_def st1_def t_def)
  from fields coords name uoc c step show ?thesis
    by (simp add: row_coordinates_def row_type_name_def row_asset_id_def st1_def t_def)
qed

text \<open>An invalid row appends one error; the state it is appended to is the one before
  the row or the one after the row's type was resolved.\<close>

lemma process_row_invalid:
  assumes "\<not> valid_row (env_mapping env) row"
  shows "\<exists>msg st1. process_row env n row st = add_error st1 (row_prefix n @ msg) \<and>
           (st1 = st \<or> st1 = fst (resolve_asset_type st (row_type_name (env_mapping env) row)))"
  using assms
  by (auto simp: valid_row_def process_row_def try_row_def case_prod_beta Let_def row_type_name_def
           split: sum.splits option.splits)

lemma add_error_frame [simp]:
  "st_db (add_error st msg) = st_db st"
  "asset_types_cache (add_error st msg) = asset_types_cache st"
  "created (results (add_error st msg)) = created (results st)"
  "updated (results (add_error st msg)) = updated (results st)"
  "assets (results (add_error st msg)) = assets (results st)"
  by (simp_all add: add_error_def)

lemma record_asset_simps [simp]:
  "created (record_asset res aid c x y) = (if c then Suc (created res) else created res)"
  "updated (record_asset res aid c x y) = (if c then updated res else Suc (updated res))"
  "errors (record_asset res aid c x y) = errors res"
  "assets (record_asset res aid c x y) =
     assets res @ [\<lparr>entry_asset_id = aid, entry_created = c, entry_x = x, entry_y = y\<rparr>]"
  by (simp_all add: record_asset_def Let_def)

text \<open>What every row preserves.\<close>

lemma process_row_invariants:
  assumes "unique_assets (st_db st)"
  shows "unique_assets (st_db (process_row env n row st))"
    and "\<exists>new. db_asset_types (st_db (process_row env n row st)) = db_asset_types (st_db st) @ new"
    and "cache_consistent st \<Longrightarrow> cache_consistent (process_row env n row st)"
proof -
  let ?m = "env_mapping env"
  let ?st1 = "fst (resolve_asset_type st (row_type_name ?m row))"
  have types1: "\<exists>new. db_asset_types (st_db ?st1) = db_asset_types (st_db st) @ new"
    by (rule resolve_asset_type_types)
  show "unique_assets (st_db (process_row env n row st))"
  proof (cases "valid_row ?m row")
    case True
    from process_row_valid [OF True assms, of n] obtain x y nm db' where
      uoc: "Asset_update_or_create (st_db ?st1) (env_project env) (row_asset_id ?m row)
              (at_pk (snd (resolve_asset_type st (row_type_name ?m row)))) nm x y
              (build_metadata ?m row) (env_batch env)
            = Inr (db', (env_project env, row_asset_id ?m row) \<notin> set (map asset_key (db_assets (st_db st))))"
      and step: "process_row env n row st =
              ?st1\<lparr>st_db := db', results := record_asset (results st) (row_asset_id ?m row)
                 ((env_project env, row_asset_id ?m row) \<notin> set (map asset_key (db_assets (st_db st)))) x y\<rparr>"
      by blast
    have "unique_assets (st_db ?st1)" using assms by simp
    from update_or_create_unique [OF this uoc] step show ?thesis by simp
  next
    case False
    from process_row_invalid [OF False, of n st] assms show ?thesis by auto
  qed
  show "\<exists>new. db_asset_types (st_db (process_row env n row st)) = db_asset_types (st_db st) @ new"
  proof (cases "valid_row ?m row")
    case True
    from process_row_valid [OF True assms, of n] obtain x y nm db' where
      uoc: "Asset_update_or_create (st_db ?st1) (env_project env) (row_asset_id ?m row)
              (at_pk (snd (resolve_asset_type st (row_type_name ?m row)))) nm x y
              (build_metadata ?m row) (env_batch env)
            = Inr (db', (env_project env, row_asset_id ?m row) \<notin> set (map asset_key (db_assets (st_db st))))"
      and step: "process_row env n row st =
              ?st1\<lparr>st_db := db', results := record_asset (results st) (row_asset_id ?m row)
                 ((env_project env, row_asset_id ?m row) \<notin> set (map asset_key (db_assets (st_db st)))) x y\<rparr>"
      by blast
    from update_or_create_frame(1) [OF uoc] step types1 show ?thesis by simp
  next
    case False
    from process_row_invalid [OF False, of n st] types1 show ?thesis by auto
  qed
  show "cache_consistent (process_row env n row st)" if cc: "cache_consistent st"
  proof (cases "valid_row ?m row")
    case True
    from process_row_valid [OF True assms, of n] obtain x y nm db' where
      uoc: "Asset_update_or_create (st_db ?st1) (env_project env) (row_asset_id ?m row)
              (at_pk (snd (resolve_asset_type st (row_type_name ?m row)))) nm x y
              (build_metadata ?m row) (env_batch env)
            = Inr (db', (env_project env, row_asset_id ?m row) \<notin> set (map asset_key (db_assets (st_db st))))"
      and step: "process_row env n row st =
              ?st1\<lparr>st_db := db', results := record_asset (results st) (row_asset_id ?m row)
                 ((env_project env, row_asset_id ?m row) \<notin> set (map asset_key (db_assets (st_db st)))) x y\<rparr>"
      by blast
    from resolve_asset_type_consistent(1) [OF cc, of "row_type_name ?m row"]
         update_or_create_frame(1) [OF uoc] step
    show ?thesis by (simp add: cache_consistent_def)
  next
    case False
    from process_row_invalid [OF False, of n st]
         resolve_asset_type_consistent(1) [OF cc, of "row_type_name ?m row"] cc
    show ?thesis by (auto simp: cache_consistent_def)
  qed
qed

section \<open>Counting created and updated rows\<close>

lemma process_row_counts:
  assumes "unique_assets (st_db st)"
  shows "valid_row (env_mapping env) row \<Longrightarrow>
           (env_project env, row_asset_id (env_mapping env) row) \<in> set (map asset_key (db_assets (st_db st))) \<Longrightarrow>
           created (results (process_row env n row st)) = created (results st) \<and>
           updated (results (process_row env n row st)) = Suc (updated (results st)) \<and>
           map asset_key (db_assets (st_db (process_row env n row st))) = map asset_key (db_assets (st_db st))"
    and "valid_row (env_mapping env) row \<Longrightarrow>
           (env_project env, row_asset_id (env_mapping env) row) \<notin> set (map asset_key (db_assets (st_db st))) \<Longrightarrow>
           created (results (process_row env n row st)) = Suc (created (results st)) \<and>
           updated (results (process_row env n row st)) = updated (results st) \<and>
           map asset_key (db_assets (st_db (process_row env n row st))) =
             map asset_key (db_assets (st_db st)) @ [(env_project env, row_asset_id (env_mapping env) row)]"
    and "\<not> valid_row (env_mapping env) row \<Longrightarrow>
           created (results (process_row env n row st)) = created (results st) \<and>
           updated (results (process_row env n row st)) = updated (results st) \<and>
           db_assets (st_db (process_row env n row st)) = db_assets (st_db st)"
proof -
  let ?m = "env_mapping env"
  let ?st1 = "fst (resolve_asset_type st (row_type_name ?m row))"
  let ?k = "(env_project env, row_asset_id ?m row)"
  have valid_case:
    "created (results (process_row env n row st)) =
       (if ?k \<notin> set (map asset_key (db_assets (st_db st))) then Suc (created (results st)) else created (results st)) \<and>
     updated (results (process_row env n row st)) =
       (if ?k \<notin> set (map asset_key (db_assets (st_db st))) then updated (results st) else Suc (updated (results st))) \<and>
     map asset_key (db_assets (st_db (process_row env n row st))) =
       (if ?k \<notin> set (map asset_key (db_assets (st_db st)))
        then map asset_key (db_assets (st_db st)) @ [?k] else map asset_key (db_assets (st_db st)))"
    if v: "valid_row ?m row"
  proof -
    from process_row_valid [OF v assms, of n] obtain x y nm db' where
      uoc: "Asset_update_or_create (st_db ?st1) (env_project env) (row_asset_id ?m row)
              (at_pk (snd (resolve_asset_type st (row_type_name ?m row)))) nm x y
              (build_metadata ?m row) (env_batch env)
            = Inr (db', ?k \<notin> set (map asset_key (db_assets (st_db st))))"
      and step: "process_row env n row st =
              ?st1\<lparr>st_db := db', results := record_asset (results st) (row_asset_id ?m row)
                 (?k \<notin> set (map asset_key (db_assets (st_db st)))) x y\<rparr>"
      by blast
    have "unique_assets (st_db ?st1)" using assms by simp
    from update_or_create_keys(2) [OF this uoc] step show ?thesis
      by simp
  qed
  show "valid_row ?m row \<Longrightarrow> ?k \<in> set (map asset_key (db_assets (st_db st))) \<Longrightarrow>
           created (results (process_row env n row st)) = created (results st) \<and>
           updated (results (process_row env n row st)) = Suc (updated (results st)) \<and>
           map asset_key (db_assets (st_db (process_row env n row st))) = map asset_key (db_assets (st_db st))"
    using valid_case by simp
  show "valid_row ?m row \<Longrightarrow> ?k \<notin> set (map asset_key (db_assets (st_db st))) \<Longrightarrow>
           created (results (process_row env n row st)) = Suc (created (results st)) \<and>
           updated (results (process_row env n row st)) = updated (results st) \<and>
           map asset_key (db_assets (st_db (process_row env n row st))) =
             map asset_key (db_assets (st_db st)) @ [?k]"
    using valid_case by simp
  show "\<not> valid_row ?m row \<Longrightarrow>
           created (results (process_row env n row st)) = created (results st) \<and>
           updated (results (process_row env n row st)) = updated (results st) \<and>
           db_assets (st_db (process_row env n row st)) = db_assets (st_db st)"
    using process_row_invalid [of env row n st] by auto
qed

lemma process_rows_invariants_conj:
  assumes "unique_assets (st_db st)"
  shows "unique_assets (st_db (process_rows env n rows st)) \<and>
         (\<exists>new. db_asset_types (st_db (process_rows env n rows st)) = db_asset_types (st_db st) @ new) \<and>
         (cache_consistent st \<longrightarrow> cache_consistent (process_rows env n rows st))"
  using assms
proof (induction rows arbitrary: n st)
  case Nil
  then show ?case by simp
next
  case (Cons row rows)
  let ?st' = "process_row env n row st"
  note step = process_row_invariants [OF Cons.prems, of env n row]
  from Cons.IH [OF step(1), of "Suc n"] step(2) step(3)
  show ?case by auto
qed

lemma process_rows_invariants:
  assumes "unique_assets (st_db st)"
  shows "unique_assets (st_db (process_rows env n rows st))"
    and "\<exists>new. db_asset_types (st_db (process_rows env n rows st)) = db_asset_types (st_db st) @ new"
    and "cache_consistent st \<Longrightarrow> cache_consistent (process_rows env n rows st)"
  using process_rows_invariants_conj [OF assms, of env n rows] by blast+

text \<open>A second pass over rows whose keys are all present updates every valid row and
  leaves the keys of the table as they are.\<close>

lemma process_rows_all_present:
  assumes "unique_assets (st_db st)"
    and "\<forall>row \<in> set rows. valid_row (env_mapping env) row \<longrightarrow>
           (env_project env, row_asset_id (env_mapping env) row) \<in> set (map asset_key (db_assets (st_db st)))"
  shows "created (results (process_rows env n rows st)) = created (results st) \<and>
         updated (results (process_rows env n rows st)) =
           updated (results st) + length (filter (valid_row (env_mapping env)) rows) \<and>
         map asset_key (db_assets (st_db (process_rows env n rows st))) = map asset_key (db_assets (st_db st))"
  using assms
proof (induction rows arbitrary: n st)
  case Nil
  then show ?case by simp
next
  case (Cons row rows)
  let ?st' = "process_row env n row st"
  have u': "unique_assets (st_db ?st')"
    by (rule process_row_invariants(1) [OF Cons.prems(1)])
  show ?case
  proof (cases "valid_row (env_mapping env) row")
    case True
    with Cons.prems(2)
    have present: "(env_project env, row_asset_id (env_mapping env) row)
                     \<in> set (map asset_key (db_assets (st_db st)))" by simp
    note step = process_row_counts(1) [OF Cons.prems(1) True present, of n]
    from Cons.prems(2) step
    have "\<forall>r \<in> set rows. valid_row (env_mapping env) r \<longrightarrow>
            (env_project env, row_asset_id (env_mapping env) r) \<in> set (map asset_key (db_assets (st_db ?st')))"
      by simp
    from Cons.IH [OF u' this, of "Suc n"] step True show ?thesis by simp
  next
    case False
    note step = process_row_counts(3) [OF Cons.prems(1) False, of n]
    from Cons.prems(2) step
    have "\<forall>r \<in> set rows. valid_row (env_mapping env) r \<longrightarrow>
            (env_project env, row_asset_id (env_mapping env) r) \<in> set (map asset_key (db_assets (st_db ?st')))"
      by simp
    from Cons.IH [OF u' this, of "Suc n"] step False show ?thesis by simp
  qed
qed

text \<open>A pass over rows whose keys are new and pairwise distinct creates every valid row.\<close>

lemma process_rows_all_new:
  assumes "unique_assets (st_db st)"
    and "distinct (map (row_asset_id (env_mapping env)) (filter (valid_row (env_mapping env)) rows))"
    and "\<forall>row \<in> set rows. valid_row (env_mapping env) row \<longrightarrow>
           (env_project env, row_asset_id (env_mapping env) row) \<notin> set (map asset_key (db_assets (st_db st)))"
  shows "created (results (process_rows env n rows st)) =
           created (results st) + length (filter (valid_row (env_mapping env)) rows) \<and>
         updated (results (process_rows env n rows st)) = updated (results st)"
  using assms
proof (induction rows arbitrary: n st)
  case Nil
  then show ?case by simp
next
  case (Cons row rows)
  let ?st' = "process_row env n row st"
  have u': "unique_assets (st_db ?st')"
    by (rule process_row_invariants(1) [OF Cons.prems(1)])
  show ?case
  proof (cases "valid_row (env_mapping env) row")
    case True
    with Cons.prems(3)
    have new: "(env_project env, row_asset_id (env_mapping env) row)
                     \<notin> set (map asset_key (db_assets (st_db st)))" by simp
    note step = process_row_counts(2) [OF Cons.prems(1) True new, of n]
    from Cons.prems(2) True
    have d': "distinct (map (row_asset_id (env_mapping env)) (filter (valid_row (env_mapping env)) rows))"
      and other: "\<forall>r \<in> set rows. valid_row (env_mapping env) r \<longrightarrow>
                    row_asset_id (env_mapping env) r \<noteq> row_asset_id (env_mapping env) row"
      by (force simp: image_iff)+
    from Cons.prems(3) step other
    have "\<forall>r \<in> set rows. valid_row (env_mapping env) r \<longrightarrow>
            (env_project env, row_asset_id (env_mapping env) r) \<notin> set (map asset_key (db_assets (st_db ?st')))"
      by auto
    from Cons.IH [OF u' d' this, of "Suc n"] step True show ?thesis by simp
  next
    case False
    note step = process_row_counts(3) [OF Cons.prems(1) False, of n]
    from Cons.prems(2) False
    have d': "distinct (map (row_asset_id (env_mapping env)) (filter (valid_row (env_mapping env)) rows))"
      by simp
    from Cons.prems(3) step
    have "\<forall>r \<in> set rows. valid_row (env_mapping env) r \<longrightarrow>
            (env_project env, row_asset_id (env_mapping env) r) \<notin> set (map asset_key (db_assets (st_db ?st')))"
      by simp
    from Cons.IH [OF u' d' this, of "Suc n"] step False show ?thesis by simp
  qed
qed

text \<open>After any pass the key of every valid row is in the table, no key was lost, and
  the counters have grown by the number of valid rows.\<close>

lemma process_rows_covers:
  assumes "unique_assets (st_db st)"
  shows "set (map asset_key (db_assets (st_db st))) \<subseteq> set (map asset_key (db_assets (st_db (process_rows env n rows st)))) \<and>
         (\<forall>row \<in> set rows. valid_row (env_mapping env) row \<longrightarrow>
            (env_project env, row_asset_id (env_mapping env) row)
              \<in> set (map asset_key (db_assets (st_db (process_rows env n rows st))))) \<and>
         created (results (process_rows env n rows st)) + updated (results (process_rows env n rows st)) =
           created (results st) + updated (results st) + length (filter (valid_row (env_mapping env)) rows)"
  using assms
proof (induction rows arbitrary: n st)
  case Nil
  then show ?case by simp
next
  case (Cons row rows)
  let ?st' = "process_row env n row st"
  let ?k = "(env_project env, row_asset_id (env_mapping env) row)"
  have u': "unique_assets (st_db ?st')"
    by (rule process_row_invariants(1) [OF Cons.prems(1)])
  note ih = Cons.IH [OF u', of "Suc n"]
  show ?case
  proof (cases "valid_row (env_mapping env) row")
    case True
    show ?thesis
    proof (cases "?k \<in> set (map asset_key (db_assets (st_db st)))")
      case present: True
      from process_row_counts(1) [OF Cons.prems(1) True present, of n] ih True present
      show ?thesis by auto
    next
      case new: False
      from process_row_counts(2) [OF Cons.prems(1) True new, of n] ih True
      show ?thesis by auto
    qed
  next
    case False
    from process_row_counts(3) [OF Cons.prems(1) False, of n] ih False
    show ?thesis by auto
  qed
qed

section \<open>Properties of the file validators\<close>

text \<open>
  Claim C7. The default validators enforce the size ceiling: a file larger than 50 MB fails
  the PDF validator with the size error, a file larger than 5 MB fails the image validator
  with the size error, and a file at or below the ceiling never fails with the size error,
  whether python-magic is available or not.
\<close>

theorem validators_enforce_size_ceiling:
  "(file_size f > 50 * 1024 * 1024 \<longrightarrow>
      validate_pdf magic f = Inl (SizeExceeded (file_size f) (50 * 1024 * 1024))) \<and>
   (file_size f > 5 * 1024 * 1024 \<longrightarrow>
      validate_image magic f = Inl (SizeExceeded (file_size f) (5 * 1024 * 1024))) \<and>
   (file_size f \<le> 50 * 1024 * 1024 \<longrightarrow> (\<forall>a b. validate_pdf magic f \<noteq> Inl (SizeExceeded a b))) \<and>
   (file_size f \<le> 5 * 1024 * 1024 \<longrightarrow> (\<forall>a b. validate_image magic f \<noteq> Inl (SizeExceeded a b)))"
proof -
  have pdf_big: "file_size f > 50 * 1024 * 1024 \<Longrightarrow>
      validate_pdf magic f = Inl (SizeExceeded (file_size f) (50 * 1024 * 1024))"
    by (simp add: validate_pdf_def pdf_call_def PDFFileValidator_def pdf_default_max_size_def)
  have img_big: "file_size f > 5 * 1024 * 1024 \<Longrightarrow>
      validate_image magic f = Inl (SizeExceeded (file_size f) (5 * 1024 * 1024))"
    by (simp add: validate_image_def image_call_def ImageFileValidator_def image_default_max_size_def)
  have pdf_small: "file_size f \<le> 50 * 1024 * 1024 \<Longrightarrow> validate_pdf magic f \<noteq> Inl (SizeExceeded a b)" for a b
    by (auto simp: validate_pdf_def pdf_call_def PDFFileValidator_def pdf_default_max_size_def Let_def
             split: option.splits sum.splits)
  have img_small: "file_size f \<le> 5 * 1024 * 1024 \<Longrightarrow> validate_image magic f \<noteq> Inl (SizeExceeded a b)" for a b
    by (auto simp: validate_image_def image_call_def ImageFileValidator_def image_default_max_size_def
                   image_header_check_def Let_def
             split: option.splits sum.splits)
  from pdf_big img_big pdf_small img_small show ?thesis by blast
qed

theorem validators_enforce_size_ceiling_witness:
  "validate_pdf None \<lparr>file_size = 52428801, file_name = ''plan.pdf'', file_content = ''%PDF-1.4''\<rparr>
     = Inl (SizeExceeded 52428801 52428800) \<and>
   validate_image None \<lparr>file_size = 5242881, file_name = ''logo.png'', file_content = CHR 0x89 # ''PNG''\<rparr>
     = Inl (SizeExceeded 5242881 5242880) \<and>
   validate_pdf None \<lparr>file_size = 52428800, file_name = ''plan.pdf'', file_content = ''%PDF-1.4''\<rparr>
     \<noteq> Inl (SizeExceeded 52428800 52428800) \<and>
   validate_image None \<lparr>file_size = 5242880, file_name = ''logo.png'', file_content = CHR 0x89 # ''PNG''\<rparr>
     \<noteq> Inl (SizeExceeded 5242880 5242880)"
  using validators_enforce_size_ceiling
          [of "\<lparr>file_size = 52428801, file_name = ''plan.pdf'', file_content = ''%PDF-1.4''\<rparr>" None]
        validators_enforce_size_ceiling
          [of "\<lparr>file_size = 5242881, file_name = ''logo.png'', file_content = CHR 0x89 # ''PNG''\<rparr>" None]
        validators_enforce_size_ceiling
          [of "\<lparr>file_size = 52428800, file_name = ''plan.pdf'', file_content = ''%PDF-1.4''\<rparr>" None]
        validators_enforce_size_ceiling
          [of "\<lparr>file_size = 5242880, file_name = ''logo.png'', file_content = CHR 0x89 # ''PNG''\<rparr>" None]
  by simp

text \<open>
  Claim C10, as stated, fails: without python-magic a file named \<open>photo.webp\<close> whose
  content begins with the PNG signature passes the image validator.
\<close>

theorem webp_named_png_passes_without_magic:
  "image_ext ''photo.webp'' = ''.webp'' \<and>
   validate_image None \<lparr>file_size = 8, file_name = ''photo.webp'',
                         file_content = [CHR 0x89, CHR ''P'', CHR ''N'', CHR ''G'', CHR 0x0D, CHR 0x0A, CHR 0x1A, CHR 0x0A]\<rparr>
     = Inr ()"
  by (simp add: validate_image_def image_call_def ImageFileValidator_def image_default_max_size_def
                image_header_check_def image_allowed_extensions_def image_ext_def split_last_def
                py_lower_def py_lower_char_def startswith_def)

lemma riff_has_no_image_signature:
  assumes "startswith content ''RIFF''"
  shows "\<not> startswith (take 2048 content) [CHR 0x89, CHR ''P'', CHR ''N'', CHR ''G'']"
    and "\<not> startswith (take 2048 content) [CHR 0xFF, CHR 0xD8, CHR 0xFF]"
    and "\<not> startswith (take 2048 content) ''GIF87a''"
    and "\<not> startswith (take 2048 content) ''GIF89a''"
  using assms unfolding startswith_def
  by (cases content; cases "tl content"; cases "tl (tl content)"; cases "tl (tl (tl content))"; auto)+

text \<open>
  Claim C10, amended. Without python-magic the image validator rejects every \<open>.webp\<close> file
  whose first bytes are not a PNG, JPEG or GIF signature, with the content error or, for a
  file above 5 MB, the size error; a file that begins with the RIFF header of a well-formed
  WEBP file is such a file.
\<close>

theorem webp_without_magic:
  assumes "image_ext (file_name f) = ''.webp''"
    and "startswith (file_content f) ''RIFF'' \<or>
         \<not> (startswith (take 2048 (file_content f)) [CHR 0x89, CHR ''P'', CHR ''N'', CHR ''G''] \<or>
            startswith (take 2048 (file_content f)) [CHR 0xFF, CHR 0xD8, CHR 0xFF] \<or>
            startswith (take 2048 (file_content f)) ''GIF87a'' \<or>
            startswith (take 2048 (file_content f)) ''GIF89a'')"
  shows "validate_image None f = Inl BadImageContent \<or>
         validate_image None f = Inl (SizeExceeded (file_size f) (5 * 1024 * 1024))"
proof -
  from assms(2) riff_has_no_image_signature [of "file_content f"]
  have "\<not> (startswith (take 2048 (file_content f)) [CHR 0x89, CHR ''P'', CHR ''N'', CHR ''G''] \<or>
            startswith (take 2048 (file_content f)) [CHR 0xFF, CHR 0xD8, CHR 0xFF] \<or>
            startswith (take 2048 (file_content f)) ''GIF87a'' \<or>
            startswith (take 2048 (file_content f)) ''GIF89a'')"
    by blast
  with assms(1) show ?thesis
    by (simp add: validate_image_def image_call_def ImageFileValidator_def image_default_max_size_def
                  image_header_check_def image_allowed_extensions_def)
qed

theorem webp_without_magic_witness:
  "validate_image None \<lparr>file_size = 16, file_name = ''photo.webp'', file_content = ''RIFF....WEBPVP8 ''\<rparr>
     = Inl BadImageContent"
proof -
  have ext: "image_ext (file_name \<lparr>file_size = 16, file_name = ''photo.webp'', file_content = ''RIFF....WEBPVP8 ''\<rparr>) = ''.webp''"
    by (simp add: image_ext_def split_last_def py_lower_def py_lower_char_def)
  have riff: "startswith (file_content \<lparr>file_size = 16, file_name = ''photo.webp'', file_content = ''RIFF....WEBPVP8 ''\<rparr>) ''RIFF''"
    by (simp add: startswith_def)
  have size: "validate_image None \<lparr>file_size = 16, file_name = ''photo.webp'', file_content = ''RIFF....WEBPVP8 ''\<rparr>
     \<noteq> Inl (SizeExceeded 16 (5 * 1024 * 1024))"
    by (simp add: validate_image_def image_call_def ImageFileValidator_def image_default_max_size_def
                  image_header_check_def image_allowed_extensions_def image_ext_def split_last_def
                  py_lower_def py_lower_char_def startswith_def)
  from webp_without_magic [OF ext disjI1 [OF riff]] size show ?thesis
    by simp
qed

section \<open>Properties of the importer\<close>

text \<open>
  When the file has a header and some required role (\<open>asset_id\<close>, \<open>asset_type\<close>, \<open>x\<close>,
  \<open>y\<close>) is mapped to a column that is not in it, the import raises \<open>ValueError\<close> with the
  list of the missing columns and the database is left as it was: no batch and no asset is
  written.
\<close>

lemma missing_required_column_rejects_import:
  assumes "reader_fieldnames file = Inr (Some names)"
    and "role \<in> set required_roles"
    and "dict_get (merged_mapping column_mapping) role [] \<notin> set names"
  shows "import_assets_from_csv db proj file column_mapping fname =
           (Inl (ValueError (''Missing columns in CSV: '' @ py_join '', ''
                  (map (\<lambda>r. missing_entry r (dict_get (merged_mapping column_mapping) r []))
                       (filter (\<lambda>r. dict_get (merged_mapping column_mapping) r [] = [] \<or>
                                     dict_get (merged_mapping column_mapping) r [] \<notin> set names)
                               required_roles)))), db)"
proof -
  from assms(2,3)
  have "filter (\<lambda>r. dict_get (merged_mapping column_mapping) r [] = [] \<or>
                    dict_get (merged_mapping column_mapping) r [] \<notin> set names) required_roles \<noteq> []"
    by (auto simp: filter_empty_conv)
  with assms(1) show ?thesis
    by (simp add: import_assets_from_csv_def find_missing_header)
qed

text \<open>
  Claim C1 is not met by an upload without any record, such as an empty file: it has no
  header, so every required column is absent from it, but \<open>reader.fieldnames\<close> is \<open>None\<close>
  and the test \<open>col not in fieldnames\<close> raises \<open>TypeError\<close> instead of the \<open>ValueError\<close>
  for missing columns. Nothing is written.
\<close>

theorem empty_upload_raises_type_error:
  "import_assets_from_csv empty_database 1 \<lparr>csv_reads = [], csv_name = Some ''empty.csv''\<rparr> None None
   = (Inl (TypeError (''argument of type '' @ quote ''NoneType'' @ '' is not iterable'')),
      empty_database)"
  by code_simp

text \<open>
  Claim C6. Whenever the import is not rejected at the process level, the batch it created
  is the last row of the batch table and its \<open>asset_count\<close> is \<open>created + updated\<close> of the
  result.
\<close>

theorem batch_asset_count_is_created_plus_updated:
  assumes "import_assets_from_csv db proj file column_mapping fname = (Inr r, db')"
  shows "db_import_batches db' =
           db_import_batches db @
             [\<lparr>batch_pk = next_pk (map batch_pk (db_import_batches db)), batch_project = proj,
               batch_filename = batch_filename_of fname file,
               batch_asset_count = created r + updated r\<rparr>]"
proof -
  from assms show ?thesis
    unfolding import_when_columns_present [OF import_returns [OF assms]] Let_def
    by (auto intro!: save_asset_count_new_batch)
qed

theorem batch_asset_count_is_created_plus_updated_witness:
  "db_import_batches (snd (import_assets_from_csv empty_database 1
       (make_csv_content default_header [[''B1'', ''Pipe'', ''0'', ''0'', '''']]) None (Some ''myfile.csv'')))
     = [\<lparr>batch_pk = 1, batch_project = 1, batch_filename = ''myfile.csv'', batch_asset_count = 1\<rparr>]"
proof -
  have run: "import_assets_from_csv empty_database 1
        (make_csv_content default_header [[''B1'', ''Pipe'', ''0'', ''0'', '''']]) None (Some ''myfile.csv'')
      = (Inr \<lparr>created = 1, updated = 0, errors = [],
               assets = [\<lparr>entry_asset_id = ''B1'', entry_created = True, entry_x = Finite 0, entry_y = Finite 0\<rparr>]\<rparr>,
         \<lparr>db_asset_types = [\<lparr>at_pk = 1, at_name = ''Pipe'', at_icon_shape = ''circle'', at_color = ''#FF0000'', at_size = 20\<rparr>],
          db_import_batches = [\<lparr>batch_pk = 1, batch_project = 1, batch_filename = ''myfile.csv'', batch_asset_count = 1\<rparr>],
          db_assets = [\<lparr>asset_project = 1, asset_id = ''B1'', asset_type = 1, asset_name = [],
                        original_x = Finite 0, original_y = Finite 0, adjusted_x = None, adjusted_y = None,
                        is_adjusted = False, asset_metadata = [], asset_import_batch = Some 1\<rparr>]\<rparr>)"
    by code_simp
  from batch_asset_count_is_created_plus_updated [OF run]
  have "db_import_batches (snd (import_assets_from_csv empty_database 1
       (make_csv_content default_header [[''B1'', ''Pipe'', ''0'', ''0'', '''']]) None (Some ''myfile.csv'')))
     = db_import_batches empty_database @
         [\<lparr>batch_pk = next_pk (map batch_pk (db_import_batches empty_database)), batch_project = 1,
           batch_filename = batch_filename_of (Some ''myfile.csv'')
             (make_csv_content default_header [[''B1'', ''Pipe'', ''0'', ''0'', '''']]),
           batch_asset_count = 1 + 0\<rparr>]"
    by (simp only: run snd_conv import_results.simps)
  also have "\<dots> = [\<lparr>batch_pk = 1, batch_project = 1, batch_filename = ''myfile.csv'', batch_asset_count = 1\<rparr>]"
    by (simp add: empty_database_def next_pk_def batch_filename_of_def)
  finally show ?thesis .
qed

text \<open>
  When the required columns are present and the reader raises no error, the import returns
  and every row ends in exactly one of \<open>errors\<close> and \<open>assets\<close>. For each row, at position
  \<open>length pre\<close> of the rows read: the rows after it are processed from the state this row
  leaves; and either the row appends one error that starts with \<open>Row k:\<close>, where \<open>k\<close> is its
  position plus 2 (the first data row is row 2), changes nothing else in the result, leaves
  the asset table as it was, and the error is in the final result; or the row records one
  upsert. Exceptions raised inside the loop body, such as the \<open>AttributeError\<close> on the
  \<open>None\<close> of a short row, take the first branch.
\<close>

lemma row_failures_are_recorded_and_isolated:
  assumes "columns_present file column_mapping" and "csv_readable file"
    and "reader_rows file = pre @ row # post"
  shows "let env = fst (start_import db proj file column_mapping fname);
             st1 = process_rows env 2 pre (snd (start_import db proj file column_mapping fname));
             k = 2 + length pre;
             st2 = process_row env k row st1;
             st3 = process_rows env (Suc k) post st2
         in fst (import_assets_from_csv db proj file column_mapping fname) = Inr (results st3) \<and>
            length (errors (results st3)) + length (assets (results st3)) = length (reader_rows file) \<and>
            ((\<exists>msg. results st2 = (results st1)\<lparr>errors := errors (results st1) @ [row_prefix k @ msg]\<rparr> \<and>
                    db_assets (st_db st2) = db_assets (st_db st1) \<and>
                    row_prefix k @ msg \<in> set (errors (results st3))) \<or>
             (\<exists>aid c x y. results st2 = record_asset (results st1) aid c x y))"
proof -
  define env where "env = fst (start_import db proj file column_mapping fname)"
  define st0 where "st0 = snd (start_import db proj file column_mapping fname)"
  define st1 where "st1 = process_rows env 2 pre st0"
  define st2 where "st2 = process_row env (2 + length pre) row st1"
  define st3 where "st3 = process_rows env (Suc (2 + length pre)) post st2"
  have loop: "process_rows env 2 (reader_rows file) st0 = st3"
    by (simp add: assms(3) process_rows_append st1_def st2_def st3_def)
  have returns: "fst (import_assets_from_csv db proj file column_mapping fname) = Inr (results st3)"
    using loop by (simp add: import_when_columns_present [OF assms(1,2)] Let_def env_def st0_def)
  have totals: "length (errors (results st3)) + length (assets (results st3)) = length (reader_rows file)"
    using process_rows_totals [of env 2 "reader_rows file" st0] loop
    by (simp add: st0_def)
  have outcome:
    "(\<exists>msg. results st2 = (results st1)\<lparr>errors := errors (results st1) @ [row_prefix (2 + length pre) @ msg]\<rparr> \<and>
            db_assets (st_db st2) = db_assets (st_db st1) \<and>
            row_prefix (2 + length pre) @ msg \<in> set (errors (results st3))) \<or>
     (\<exists>aid c x y. results st2 = record_asset (results st1) aid c x y)"
  proof -
    from process_row_outcome [of env "2 + length pre" row st1]
    consider (failed) msg st' where "st2 = add_error st' (row_prefix (2 + length pre) @ msg)"
        "results st' = results st1" "db_assets (st_db st') = db_assets (st_db st1)"
      | (upsert) aid c x y where "results st2 = record_asset (results st1) aid c x y"
      unfolding st2_def by blast
    then show ?thesis
    proof cases
      case failed
      from process_rows_errors_grow [of env "Suc (2 + length pre)" post st2]
      obtain new where "errors (results st3) = errors (results st2) @ new"
        unfolding st3_def by blast
      with failed show ?thesis
        by (auto simp: add_error_def)
    next
      case upsert
      then show ?thesis by blast
    qed
  qed
  from returns totals outcome show ?thesis
    unfolding Let_def env_def st0_def st1_def st2_def st3_def by simp
qed

text \<open>
  Claim C4 is not met when the failure of a row is raised by the reader: the \<open>for\<close> header
  is outside the \<open>try\<close>, so the \<open>csv.Error\<close> for a second data row with a stray carriage
  return in an unquoted field leaves the loop and the transaction. The call raises it, no
  error is recorded against the row, and the asset of the first, valid row is rolled back
  with the batch.
\<close>

theorem reader_error_aborts_import:
  "import_assets_from_csv empty_database 1
     \<lparr>csv_reads = [ReadRow default_header, ReadRow [''OK'', ''T'', ''10'', ''20'', ''''],
                   ReadError (''new-line character seen in unquoted field - do you need to open '' @
                              ''the file with newline='' @ quote [] @ ''?'')],
      csv_name = Some ''test.csv''\<rparr> None None
   = (Inl (CsvError (''new-line character seen in unquoted field - do you need to open '' @
                     ''the file with newline='' @ quote [] @ ''?'')),
      empty_database)"
  by code_simp

text \<open>
  Claim C2 holds for a coordinate that \<open>float\<close> cannot parse: the row gets the error
  \<open>Invalid coordinates\<close>, which names both columns and their values, nothing is written
  and the loop goes on.
\<close>

lemma unparsable_coordinates_rejected:
  assumes "extract_fields (env_mapping env) row = Inr (aid, asset_type_name, x_str, y_str)"
    and "aid \<noteq> []" and "asset_type_name \<noteq> []"
    and "py_float x_str = None \<or> py_float y_str = None"
  shows "process_row env n row st =
           add_error st (row_prefix n @ ''Invalid coordinates ('' @ col_x (env_mapping env) @ ''='' @ x_str @
                         '', '' @ col_y (env_mapping env) @ ''='' @ y_str @ '')'')"
  using assms
  by (auto simp: process_row_def try_row_def parse_coordinates_def split: option.splits)

text \<open>
  Claim C2 fails for a coordinate that parses to an infinity or to NaN: \<open>float('inf')\<close>
  succeeds and the importer has no test for finiteness, so the row is imported. Here the
  row \<open>A1,Valve,inf,20\<close> creates an asset whose \<open>original_x\<close> is infinite, with no error.
\<close>

theorem infinite_coordinate_is_imported:
  "import_assets_from_csv empty_database 1
     (make_csv_content default_header [[''A1'', ''Valve'', ''inf'', ''20'', '''']]) None None
   = (Inr \<lparr>created = 1, updated = 0, errors = [],
            assets = [\<lparr>entry_asset_id = ''A1'', entry_created = True, entry_x = PosInf, entry_y = Finite 20\<rparr>]\<rparr>,
      \<lparr>db_asset_types = [\<lparr>at_pk = 1, at_name = ''Valve'', at_icon_shape = ''circle'',
                            at_color = ''#FF0000'', at_size = 20\<rparr>],
       db_import_batches = [\<lparr>batch_pk = 1, batch_project = 1, batch_filename = ''test.csv'',
                             batch_asset_count = 1\<rparr>],
       db_assets = [\<lparr>asset_project = 1, asset_id = ''A1'', asset_type = 1, asset_name = [],
                     original_x = PosInf, original_y = Finite 20, adjusted_x = None, adjusted_y = None,
                     is_adjusted = False, asset_metadata = [], asset_import_batch = Some 1\<rparr>]\<rparr>)"
  by code_simp

text \<open>
  Claim C3 is not met: \<open>import_assets_from_csv\<close> has no parameter for a fixed asset type,
  and it always requires the \<open>asset_type\<close> column. On the file and the mapping of
  \<open>test_fixed_asset_type_skips_column_validation\<close> (header \<open>asset_id, x, y\<close>) the call that
  the signature admits is rejected for the missing \<open>asset_type\<close> column and writes nothing.
\<close>

theorem file_without_type_column_is_rejected:
  "import_assets_from_csv empty_database 1
     (make_csv_content [''asset_id'', ''x'', ''y''] [[''F3'', ''5'', ''6'']])
     (Some [(''asset_id'', ''asset_id''), (''x'', ''x''), (''y'', ''y'')]) None
   = (Inl (ValueError (''Missing columns in CSV: asset_type (mapped to '' @ quote ''asset_type'' @ '')'')),
      empty_database)"
  by code_simp

lemma project_assets_length:
  "length (project_assets db proj) = length (filter (\<lambda>k. fst k = proj) (map asset_key (db_assets db)))"
  by (simp add: project_assets_def asset_key_def filter_map comp_def)

text \<open>
  Claim C5 fails as stated: a file of two valid rows with the same asset id gives
  \<open>created = 1, updated = 1\<close> on its first run, and a file whose asset id the project
  already holds gives \<open>created = 0, updated = 1\<close> on its first run.
\<close>

theorem first_import_need_not_create_every_row:
  "length (filter (valid_row (merged_mapping None))
      (reader_rows (make_csv_content default_header
         [[''A1'', ''Valve'', ''1'', ''2'', ''v1''], [''A1'', ''Valve'', ''3'', ''4'', ''v2'']]))) = 2 \<and>
   fst (import_assets_from_csv empty_database 1
      (make_csv_content default_header
         [[''A1'', ''Valve'', ''1'', ''2'', ''v1''], [''A1'', ''Valve'', ''3'', ''4'', ''v2'']]) None None)
     = Inr \<lparr>created = 1, updated = 1, errors = [],
             assets = [\<lparr>entry_asset_id = ''A1'', entry_created = True, entry_x = Finite 1, entry_y = Finite 2\<rparr>,
                       \<lparr>entry_asset_id = ''A1'', entry_created = False, entry_x = Finite 3, entry_y = Finite 4\<rparr>]\<rparr> \<and>
   fst (import_assets_from_csv
      (snd (import_assets_from_csv empty_database 1
         (make_csv_content default_header [[''U1'', ''Gate'', ''1'', ''2'', ''v1'']]) None None)) 1
      (make_csv_content default_header [[''U1'', ''Gate'', ''10'', ''20'', ''v2'']]) None None)
     = Inr \<lparr>created = 0, updated = 1, errors = [],
             assets = [\<lparr>entry_asset_id = ''U1'', entry_created = False, entry_x = Finite 10, entry_y = Finite 20\<rparr>]\<rparr>"
  by code_simp

text \<open>
  Claim C5, amended. On a table with unique keys, importing a file whose required columns
  are present and which the reader reads without error, and importing it again into the same
  project, both succeed. With \<open>N\<close> the
  number of valid rows of the file: the first run has \<open>created + updated = N\<close>, and
  \<open>created = N\<close>, \<open>updated = 0\<close> when the asset ids of the valid rows are pairwise distinct
  and none of them is in the project before; the second run has \<open>created = 0\<close> and
  \<open>updated = N\<close>, leaves the keys of the asset table, and so the project's asset count, as
  the first run left them, and the keys stay unique: no duplicate is created.
\<close>

theorem reimport_updates_in_place:
  assumes "unique_assets db" and "columns_present file column_mapping" and "csv_readable file"
  shows "\<exists>r1 db1 r2 db2.
     import_assets_from_csv db proj file column_mapping fname = (Inr r1, db1) \<and>
     import_assets_from_csv db1 proj file column_mapping fname = (Inr r2, db2) \<and>
     created r1 + updated r1 = length (filter (valid_row (merged_mapping column_mapping)) (reader_rows file)) \<and>
     (distinct (map (row_asset_id (merged_mapping column_mapping))
                    (filter (valid_row (merged_mapping column_mapping)) (reader_rows file))) \<and>
      (\<forall>row \<in> set (reader_rows file). valid_row (merged_mapping column_mapping) row \<longrightarrow>
         (proj, row_asset_id (merged_mapping column_mapping) row) \<notin> set (map asset_key (db_assets db)))
      \<longrightarrow> created r1 = length (filter (valid_row (merged_mapping column_mapping)) (reader_rows file)) \<and>
          updated r1 = 0) \<and>
     created r2 = 0 \<and>
     updated r2 = length (filter (valid_row (merged_mapping column_mapping)) (reader_rows file)) \<and>
     map asset_key (db_assets db2) = map asset_key (db_assets db1) \<and>
     length (project_assets db2 proj) = length (project_assets db1 proj) \<and>
     unique_assets db2"
proof -
  let ?m = "merged_mapping column_mapping"
  let ?rows = "reader_rows file"
  let ?N = "length (filter (valid_row ?m) ?rows)"
  define env1 where "env1 = fst (start_import db proj file column_mapping fname)"
  define s1 where "s1 = snd (start_import db proj file column_mapping fname)"
  define f1 where "f1 = process_rows env1 2 ?rows s1"
  define db1 where "db1 = ImportBatch_save_asset_count (st_db f1) (env_batch env1)
                            (created (results f1) + updated (results f1))"
  define env2 where "env2 = fst (start_import db1 proj file column_mapping fname)"
  define s2 where "s2 = snd (start_import db1 proj file column_mapping fname)"
  define f2 where "f2 = process_rows env2 2 ?rows s2"
  define db2 where "db2 = ImportBatch_save_asset_count (st_db f2) (env_batch env2)
                            (created (results f2) + updated (results f2))"
  have run1: "import_assets_from_csv db proj file column_mapping fname = (Inr (results f1), db1)"
    by (simp add: import_when_columns_present [OF assms(2,3)] Let_def env1_def s1_def f1_def db1_def)
  have run2: "import_assets_from_csv db1 proj file column_mapping fname = (Inr (results f2), db2)"
    by (simp add: import_when_columns_present [OF assms(2,3)] Let_def env2_def s2_def f2_def db2_def)
  have env1: "env_mapping env1 = ?m" "env_project env1 = proj"
    and env2: "env_mapping env2 = ?m" "env_project env2 = proj"
    by (simp_all add: env1_def env2_def)
  have s1: "db_assets (st_db s1) = db_assets db" "created (results s1) = 0" "updated (results s1) = 0"
    and s2: "db_assets (st_db s2) = db_assets db1" "created (results s2) = 0" "updated (results s2) = 0"
    by (simp_all add: s1_def s2_def)
  have u1: "unique_assets (st_db s1)"
    using assms(1) by (simp add: unique_assets_def s1)
  have assets1: "db_assets db1 = db_assets (st_db f1)"
    by (simp add: db1_def)
  have assets2: "db_assets db2 = db_assets (st_db f2)"
    by (simp add: db2_def)
  note cover = process_rows_covers [OF u1, of env1 2 ?rows, folded f1_def, unfolded env1 s1]
  have uf1: "unique_assets (st_db f1)"
    unfolding f1_def by (rule process_rows_invariants(1) [OF u1])
  have u2: "unique_assets (st_db s2)"
    using uf1 by (simp add: unique_assets_def s2 assets1)
  have present: "\<forall>row \<in> set ?rows. valid_row (env_mapping env2) row \<longrightarrow>
           (env_project env2, row_asset_id (env_mapping env2) row) \<in> set (map asset_key (db_assets (st_db s2)))"
    using cover by (simp add: env2 s2 assets1)
  note second = process_rows_all_present [OF u2 present, of 2, folded f2_def, unfolded env2 s2]
  have total1: "created (results f1) + updated (results f1) = ?N"
    using cover by simp
  have first: "created (results f1) = ?N \<and> updated (results f1) = 0"
    if "distinct (map (row_asset_id ?m) (filter (valid_row ?m) ?rows))"
      and "\<forall>row \<in> set ?rows. valid_row ?m row \<longrightarrow>
             (proj, row_asset_id ?m row) \<notin> set (map asset_key (db_assets db))"
    using process_rows_all_new [OF u1, of env1 ?rows 2, folded f1_def, unfolded env1 s1] that
    by simp
  have keys: "map asset_key (db_assets db2) = map asset_key (db_assets db1)"
    using second by (simp add: assets2)
  have count: "length (project_assets db2 proj) = length (project_assets db1 proj)"
    by (simp add: project_assets_length keys)
  have uniq: "unique_assets db2"
    using uf1 keys by (simp add: unique_assets_def assets1)
  from run1 run2 total1 first second keys count uniq show ?thesis
    by (intro exI [of _ "results f1"] exI [of _ db1] exI [of _ "results f2"] exI [of _ db2]) simp
qed

theorem reimport_updates_in_place_witness:
  "\<exists>r1 db1 r2 db2.
     import_assets_from_csv empty_database 1
       (make_csv_content default_header
          [[''A1'', ''Valve'', ''100.5'', ''200.3'', ''First''], [''A2'', ''Valve'', ''101.0'', ''201.0'', ''Second'']])
       None None = (Inr r1, db1) \<and>
     import_assets_from_csv db1 1
       (make_csv_content default_header
          [[''A1'', ''Valve'', ''100.5'', ''200.3'', ''First''], [''A2'', ''Valve'', ''101.0'', ''201.0'', ''Second'']])
       None None = (Inr r2, db2) \<and>
     created r1 = 2 \<and> updated r1 = 0 \<and> created r2 = 0 \<and> updated r2 = 2 \<and>
     length (project_assets db2 1) = length (project_assets db1 1) \<and> unique_assets db2"
proof -
  let ?file = "make_csv_content default_header
          [[''A1'', ''Valve'', ''100.5'', ''200.3'', ''First''], [''A2'', ''Valve'', ''101.0'', ''201.0'', ''Second'']]"
  have h1: "unique_assets empty_database"
    by (simp add: unique_assets_def empty_database_def)
  have h2: "columns_present ?file None"
    by code_simp
  have n: "length (filter (valid_row (merged_mapping None)) (reader_rows ?file)) = 2"
    by code_simp
  have fresh: "distinct (map (row_asset_id (merged_mapping None))
                    (filter (valid_row (merged_mapping None)) (reader_rows ?file))) \<and>
      (\<forall>row \<in> set (reader_rows ?file). valid_row (merged_mapping None) row \<longrightarrow>
         (1, row_asset_id (merged_mapping None) row) \<notin> set (map asset_key (db_assets empty_database)))"
    by code_simp
  have h3: "csv_readable ?file"
    by simp
  from reimport_updates_in_place [OF h1 h2 h3, of 1 None] fresh
  show ?thesis
    unfolding n by blast
qed

section \<open>Files in which every row fails\<close>






section \<open>Rows that share an asset id\<close>


lemma assets_with_key_resolve [simp]:
  "assets_with_key (st_db (fst (resolve_asset_type st tn))) proj aid = assets_with_key (st_db st) proj aid"
  by (simp add: assets_with_key_def)




lemma assets_with_key_save [simp]:
  "assets_with_key (ImportBatch_save_asset_count d pk n) proj aid = assets_with_key d proj aid"
  by (simp add: assets_with_key_def)





end
